theory Spec2Isabelle
  imports Main "HOL-Library.AList"
begin

section \<open>JavaScript values\<close>

text \<open>
  The dashboard tools operate on plain JSON-like data: component records are ordinary
  objects, read by property name and rewritten through \<^verbatim>\<open>setValueAtPath\<close> with values of
  any shape. Values are therefore modelled as one datatype. Numbers are integers
  (fractions, NaN and the infinities are left out); a string is the list of its
  characters, which range over the code points U+0000 to U+00FF; an object is the list
  of its own properties in insertion order (that JavaScript lists integer-like keys
  first is not modelled).

  A value carries its own properties only. The members that a JavaScript value inherits
  from its prototype (\<^verbatim>\<open>__proto__\<close>, \<^verbatim>\<open>constructor\<close>, the built-in methods) are functions
  and shared mutable objects, not JSON data, and are not represented; the built-in
  prototypes are taken to be as the language defines them. \<open>inheritedKey\<close> below says
  which reads would reach such a member, and the model agrees with the program on the
  runs in which no such read occurs.
\<close>

datatype json =
    JUndefined
  | JNull
  | JBool bool
  | JNum int
  | JStr string
  | JArr "json list"
  | JObj "(string \<times> json) list"

text \<open>A thrown value: an \<^verbatim>\<open>Error\<close> with its name and message, or anything else.\<close>

datatype js_error =
    JsError string string
  | NonError json

definition typeError :: "string \<Rightarrow> js_error" where
  "typeError m = JsError ''TypeError'' m"

text \<open>\<^verbatim>\<open>x == null\<close>: true of \<^verbatim>\<open>null\<close> and \<^verbatim>\<open>undefined\<close>.\<close>

fun isNullish :: "json \<Rightarrow> bool" where
  "isNullish JUndefined = True"
| "isNullish JNull = True"
| "isNullish _ = False"

fun truthy :: "json \<Rightarrow> bool" where
  "truthy JUndefined = False"
| "truthy JNull = False"
| "truthy (JBool b) = b"
| "truthy (JNum n) = (n \<noteq> 0)"
| "truthy (JStr s) = (s \<noteq> [])"
| "truthy (JArr _) = True"
| "truthy (JObj _) = True"

fun isArray :: "json \<Rightarrow> bool" where
  "isArray (JArr _) = True"
| "isArray _ = False"

subsection \<open>Decimal rendering and array-index strings\<close>

definition digitChar :: "nat \<Rightarrow> char" where
  "digitChar d = char_of (48 + d)"

fun showNatAux :: "nat \<Rightarrow> nat \<Rightarrow> string \<Rightarrow> string" where
  "showNatAux 0 n acc = acc"
| "showNatAux (Suc fuel) n acc =
     (if n < 10 then digitChar n # acc
      else showNatAux fuel (n div 10) (digitChar (n mod 10) # acc))"

definition showNat :: "nat \<Rightarrow> string" where
  "showNat n = showNatAux (Suc n) n []"

definition isDigit :: "char \<Rightarrow> bool" where
  "isDigit c = (let n = (of_char c :: nat) in 48 \<le> n \<and> n \<le> 57)"

definition digitVal :: "char \<Rightarrow> nat" where
  "digitVal c = (of_char c :: nat) - 48"

definition digitsVal :: "string \<Rightarrow> nat" where
  "digitsVal s = foldl (\<lambda>a c. 10 * a + digitVal c) 0 s"

text \<open>
  A property name addresses an array element when it is the canonical decimal form of
  an index: digits only, no leading zero except for \<^verbatim>\<open>"0"\<close> itself.
\<close>

definition canonIndex :: "string \<Rightarrow> nat option" where
  "canonIndex s =
     (if s \<noteq> [] \<and> list_all isDigit s \<and> (hd s \<noteq> CHR ''0'' \<or> length s = 1)
      then Some (digitsVal s) else None)"

subsection \<open>Property access\<close>

text \<open>Reading \<^verbatim>\<open>xs[i]\<close> with a numeric index: out of range gives \<^verbatim>\<open>undefined\<close>.\<close>

fun arrGet :: "json \<Rightarrow> int \<Rightarrow> json" where
  "arrGet (JArr xs) i = (if 0 \<le> i \<and> i < int (length xs) then xs ! nat i else JUndefined)"
| "arrGet _ i = JUndefined"

fun arrLength :: "json \<Rightarrow> int" where
  "arrLength (JArr xs) = int (length xs)"
| "arrLength _ = 0"

text \<open>
  \<^verbatim>\<open>v?.[k]\<close> with a string key: own properties of an object; elements and \<^verbatim>\<open>length\<close> of an
  array or a string; \<^verbatim>\<open>undefined\<close> for everything else, including \<^verbatim>\<open>null\<close> and
  \<^verbatim>\<open>undefined\<close> themselves (that is the optional chaining). Where the program would find
  an inherited member instead (\<open>inheritedKey\<close> below), the read is outside the model.
\<close>

fun getProp :: "json \<Rightarrow> string \<Rightarrow> json" where
  "getProp (JObj kvs) k = (case map_of kvs k of Some v \<Rightarrow> v | None \<Rightarrow> JUndefined)"
| "getProp (JArr xs) k =
     (if k = ''length'' then JNum (int (length xs))
      else case canonIndex k of
             Some i \<Rightarrow> (if i < length xs then xs ! i else JUndefined)
           | None \<Rightarrow> JUndefined)"
| "getProp (JStr s) k =
     (if k = ''length'' then JNum (int (length s))
      else case canonIndex k of
             Some i \<Rightarrow> (if i < length s then JStr [s ! i] else JUndefined)
           | None \<Rightarrow> JUndefined)"
| "getProp _ k = JUndefined"

text \<open>\<^verbatim>\<open>v.k\<close> without optional chaining throws on \<^verbatim>\<open>null\<close> and \<^verbatim>\<open>undefined\<close>.\<close>

definition nullReadError :: "string \<Rightarrow> js_error" where
  "nullReadError k = typeError (''Cannot read properties of null or undefined: '' @ k)"

definition member :: "json \<Rightarrow> string \<Rightarrow> js_error + json" where
  "member v k = (if isNullish v then Inl (nullReadError k) else Inr (getProp v k))"

definition inOperatorError :: js_error where
  "inOperatorError =
     typeError ''Cannot use the in operator to search for a key in a primitive''"

text \<open>
  \<^verbatim>\<open>k in v\<close>: defined on objects and arrays only; on a primitive the operator throws a
  TypeError. The caller guards \<^verbatim>\<open>null\<close> and \<^verbatim>\<open>undefined\<close> before using it. As with
  \<open>getProp\<close>, the answer is about own properties; for an inherited member
  (\<open>inheritedKey\<close>) the program answers \<^verbatim>\<open>true\<close> and the test is outside the model.
\<close>

fun hasProp :: "string \<Rightarrow> json \<Rightarrow> js_error + bool" where
  "hasProp k (JObj kvs) = Inr (k \<in> set (map fst kvs))"
| "hasProp k (JArr xs) =
     Inr (k = ''length'' \<or> (case canonIndex k of Some i \<Rightarrow> i < length xs | None \<Rightarrow> False))"
| "hasProp k _ = Inl inOperatorError"

text \<open>
  The members every object inherits from \<^verbatim>\<open>Object.prototype\<close>.
\<close>

definition objectPrototype :: "string list" where
  "objectPrototype =
     [''__proto__'', ''constructor'', ''hasOwnProperty'', ''isPrototypeOf'',
      ''propertyIsEnumerable'', ''toLocaleString'', ''toString'', ''valueOf'',
      ''__defineGetter__'', ''__defineSetter__'', ''__lookupGetter__'', ''__lookupSetter__'']"

text \<open>
  \<open>inheritedKey v k\<close>: the key is not an own property of the value and may name a member
  it inherits, so that \<^verbatim>\<open>v[k]\<close> and \<^verbatim>\<open>k in v\<close> are not what \<open>getProp\<close> and \<open>hasProp\<close> say.
  For an object these are the names in \<open>objectPrototype\<close>. Arrays, strings, numbers
  and booleans inherit many more methods, and which ones depends on the version of the
  language; for them every key other than \<^verbatim>\<open>length\<close> and an index is counted. Nothing is
  read from \<^verbatim>\<open>null\<close> and \<^verbatim>\<open>undefined\<close>.
\<close>

fun inheritedKey :: "json \<Rightarrow> string \<Rightarrow> bool" where
  "inheritedKey (JObj kvs) k = (k \<notin> set (map fst kvs) \<and> k \<in> set objectPrototype)"
| "inheritedKey (JArr xs) k = (k \<noteq> ''length'' \<and> canonIndex k = None)"
| "inheritedKey (JStr s) k = (k \<noteq> ''length'' \<and> canonIndex k = None)"
| "inheritedKey (JNum n) k = True"
| "inheritedKey (JBool b) k = True"
| "inheritedKey _ k = False"

section \<open>Path addressing\<close>

subsection \<open>\<^verbatim>\<open>parseInt\<close>\<close>

text \<open>
  \<^verbatim>\<open>parseInt(s)\<close> with no radix: leading white space is skipped, an optional sign is read,
  a \<^verbatim>\<open>0x\<close> prefix selects base sixteen, and the longest run of digits is the value;
  no digit at all gives NaN (here \<open>None\<close>).

  \<open>isSpace\<close> is the white space of JavaScript (what \<^verbatim>\<open>trim\<close> and \<^verbatim>\<open>parseInt\<close> skip and the
  white space class of a regular expression matches) among the characters a model
  string can hold: tab, line feed, vertical tab, form feed, carriage return, space, and
  the no-break space U+00A0.
\<close>

definition isSpace :: "char \<Rightarrow> bool" where
  "isSpace c = (let n = (of_char c :: nat) in n = 32 \<or> (9 \<le> n \<and> n \<le> 13) \<or> n = 160)"

definition hexVal :: "char \<Rightarrow> nat option" where
  "hexVal c =
     (let n = (of_char c :: nat) in
      if 48 \<le> n \<and> n \<le> 57 then Some (n - 48)
      else if 97 \<le> n \<and> n \<le> 102 then Some (n - 87)
      else if 65 \<le> n \<and> n \<le> 70 then Some (n - 55)
      else None)"

definition parseDigits :: "nat \<Rightarrow> string \<Rightarrow> nat option" where
  "parseDigits radix s =
     (let ds = takeWhile (\<lambda>c. case hexVal c of Some d \<Rightarrow> d < radix | None \<Rightarrow> False) s
      in if ds = [] then None
         else Some (foldl (\<lambda>a c. radix * a + the (hexVal c)) 0 ds))"

definition parseUnsigned :: "string \<Rightarrow> nat option" where
  "parseUnsigned s =
     (if take 2 s = ''0x'' \<or> take 2 s = ''0X'' then parseDigits 16 (drop 2 s)
      else parseDigits 10 s)"

definition parseInt :: "string \<Rightarrow> int option" where
  "parseInt str =
     (let s = dropWhile isSpace str in
      case s of
        [] \<Rightarrow> None
      | c # cs \<Rightarrow>
          if c = CHR ''-'' then map_option (\<lambda>n. - int n) (parseUnsigned cs)
          else if c = CHR ''+'' then map_option int (parseUnsigned cs)
          else map_option int (parseUnsigned s))"

subsection \<open>Splitting a path\<close>

text \<open>\<^verbatim>\<open>s.split(/\.|\[|\]/)\<close>: cut at every dot and bracket, keeping empty pieces.\<close>

definition isDelim :: "char \<Rightarrow> bool" where
  "isDelim c = (c = CHR ''.'' \<or> c = CHR ''['' \<or> c = CHR '']'')"

fun splitOn :: "(char \<Rightarrow> bool) \<Rightarrow> string \<Rightarrow> string \<Rightarrow> string list" where
  "splitOn d acc [] = [rev acc]"
| "splitOn d acc (c # cs) =
     (if d c then rev acc # splitOn d [] cs else splitOn d (c # acc) cs)"

definition startsWith :: "string \<Rightarrow> string \<Rightarrow> bool" where
  "startsWith s p = (take (length p) s = p)"

definition cleanPath :: "string \<Rightarrow> string" where
  "cleanPath path =
     (if startsWith path ''$.'' then drop 2 path
      else if startsWith path ''$'' then drop 1 path
      else path)"

definition pathParts :: "string \<Rightarrow> string list" where
  "pathParts cp = filter (\<lambda>p. p \<noteq> []) (splitOn isDelim [] cp)"

subsection \<open>\<^verbatim>\<open>navigateToPath\<close>\<close>

datatype key = KStr string | KNum int

text \<open>
  The result of \<^verbatim>\<open>navigateToPath\<close>. In JavaScript \<^verbatim>\<open>parent\<close> is a reference into the
  value that was navigated; \<open>trail\<close> records where that reference points, as the keys
  leading from the root to the parent. A result without a \<^verbatim>\<open>value\<close> field reads as
  \<^verbatim>\<open>undefined\<close>.
\<close>

record nav =
  parent :: json
  trail :: "key list"
  key :: key
  exists :: bool
  "value" :: json

definition navRoot :: "json \<Rightarrow> nav" where
  "navRoot obj = \<lparr>parent = JNull, trail = [], key = KStr [], exists = True, value = obj\<rparr>"

text \<open>
  The \<^verbatim>\<open>for\<close> loop over the parts, with \<open>current\<close> and the trail that leads to it. The
  last part always returns from inside the loop, so the \<^verbatim>\<open>return\<close> after the loop is
  reached only when there are no parts at all.
\<close>

fun navLoop :: "string list \<Rightarrow> json \<Rightarrow> key list \<Rightarrow> js_error + nav" where
  "navLoop [] current tr =
     Inr \<lparr>parent = JNull, trail = [], key = KStr [], exists = False, value = JUndefined\<rparr>"
| "navLoop (part # rest) current tr =
     (if parseInt part \<noteq> None \<and> isArray current then
        (let arrayIndex = the (parseInt part) in
         if rest = [] then
           Inr \<lparr>parent = current, trail = tr, key = KNum arrayIndex,
                exists = (0 \<le> arrayIndex \<and> arrayIndex < arrLength current),
                value = arrGet current arrayIndex\<rparr>
         else if isNullish (arrGet current arrayIndex) then
           Inr \<lparr>parent = current, trail = tr, key = KNum arrayIndex,
                exists = False, value = JUndefined\<rparr>
         else navLoop rest (arrGet current arrayIndex) (tr @ [KNum arrayIndex]))
      else
        (if rest = [] then
           (if isNullish current then
              Inr \<lparr>parent = current, trail = tr, key = KStr part,
                   exists = False, value = getProp current part\<rparr>
            else case hasProp part current of
                   Inl e \<Rightarrow> Inl e
                 | Inr b \<Rightarrow>
                     Inr \<lparr>parent = current, trail = tr, key = KStr part,
                          exists = b, value = getProp current part\<rparr>)
         else if isNullish (getProp current part) then
           Inr \<lparr>parent = current, trail = tr, key = KStr part,
                exists = False, value = JUndefined\<rparr>
         else navLoop rest (getProp current part) (tr @ [KStr part])))"

definition navigateToPath :: "json \<Rightarrow> string \<Rightarrow> js_error + nav" where
  "navigateToPath obj path =
     (if path = [] \<or> path = ''$'' then Inr (navRoot obj)
      else if cleanPath path = [] then Inr (navRoot obj)
      else navLoop (pathParts (cleanPath path)) obj [])"

subsection \<open>Deep copy through JSON\<close>

text \<open>
  \<^verbatim>\<open>JSON.parse(JSON.stringify(v))\<close>. Serialising drops the properties whose value is
  \<^verbatim>\<open>undefined\<close> and writes \<^verbatim>\<open>null\<close> for an undefined array element; serialising
  \<^verbatim>\<open>undefined\<close> itself yields no text at all, and parsing that throws a SyntaxError.
  The keys of an object are pairwise distinct in every value the program builds; reads
  take the first binding of a key.
\<close>

fun cloneValue :: "json \<Rightarrow> json" where
  "cloneValue (JArr xs) = JArr (map (\<lambda>x. if x = JUndefined then JNull else cloneValue x) xs)"
| "cloneValue (JObj kvs) =
     JObj (map (\<lambda>kv. (fst kv, cloneValue (snd kv))) (filter (\<lambda>kv. snd kv \<noteq> JUndefined) kvs))"
| "cloneValue v = v"

definition jsonRoundTrip :: "json \<Rightarrow> js_error + json" where
  "jsonRoundTrip v =
     (if v = JUndefined
      then Inl (JsError ''SyntaxError'' ''undefined is not valid JSON'')
      else Inr (cloneValue v))"

subsection \<open>Assignment through a parent reference\<close>

text \<open>
  \<^verbatim>\<open>xs[i] = v\<close> on an array: inside the array the element is replaced, beyond its end the
  array grows and the gap reads as \<^verbatim>\<open>undefined\<close>. A negative index creates a property
  that is not an element; such properties of arrays are outside the value model and the
  array stays as it is.
\<close>

definition arrSet :: "json list \<Rightarrow> int \<Rightarrow> json \<Rightarrow> json list" where
  "arrSet xs i v =
     (if i < 0 then xs
      else if nat i < length xs then xs[nat i := v]
      else xs @ replicate (nat i - length xs) JUndefined @ [v])"

definition showInt :: "int \<Rightarrow> string" where
  "showInt i = (if i < 0 then CHR ''-'' # showNat (nat (- i)) else showNat (nat i))"

text \<open>
  \<^verbatim>\<open>parent[key] = value\<close> as \<^verbatim>\<open>setValueAtPath\<close> guards it: arrays with a numeric key, then
  any other object, and nothing at all for a primitive parent. Writing \<^verbatim>\<open>length\<close> of an
  array resizes it when the value is a non-negative number and throws a RangeError
  otherwise (the coercion of other values to a number is not modelled). Any other
  string key on an array creates a property that is not an element and leaves the
  array, as a value, unchanged.
\<close>

fun assignProp :: "json \<Rightarrow> key \<Rightarrow> json \<Rightarrow> js_error + json" where
  "assignProp (JArr xs) (KNum i) v = Inr (JArr (arrSet xs i v))"
| "assignProp (JArr xs) (KStr k) v =
     (if k = ''length'' then
        (case v of
           JNum n \<Rightarrow>
             (if 0 \<le> n then Inr (JArr (take (nat n) xs @ replicate (nat n - length xs) JUndefined))
              else Inl (JsError ''RangeError'' ''Invalid array length''))
         | _ \<Rightarrow> Inl (JsError ''RangeError'' ''Invalid array length''))
      else Inr (JArr xs))"
| "assignProp (JObj kvs) (KStr k) v = Inr (JObj (AList.update k v kvs))"
| "assignProp (JObj kvs) (KNum i) v = Inr (JObj (AList.update (showInt i) v kvs))"
| "assignProp p k v = Inr p"

text \<open>Rebuild the value around the position a trail leads to.\<close>

fun updAt :: "key list \<Rightarrow> (json \<Rightarrow> js_error + json) \<Rightarrow> json \<Rightarrow> js_error + json" where
  "updAt [] f j = f j"
| "updAt (KStr k # ks) f (JObj kvs) =
     (case map_of kvs k of
        None \<Rightarrow> Inr (JObj kvs)
      | Some c \<Rightarrow>
          (case updAt ks f c of
             Inl e \<Rightarrow> Inl e
           | Inr c' \<Rightarrow> Inr (JObj (AList.update k c' kvs))))"
| "updAt (KNum i # ks) f (JArr xs) =
     (if 0 \<le> i \<and> nat i < length xs then
        (case updAt ks f (xs ! nat i) of
           Inl e \<Rightarrow> Inl e
         | Inr c' \<Rightarrow> Inr (JArr (xs[nat i := c'])))
      else Inr (JArr xs))"
| "updAt (k # ks) f j = Inr j"

subsection \<open>\<^verbatim>\<open>setValueAtPath\<close>\<close>

definition setValueAtPath :: "json \<Rightarrow> string \<Rightarrow> json \<Rightarrow> js_error + json" where
  "setValueAtPath obj path v =
     (if path = [] \<or> path = ''$'' then Inr v
      else case jsonRoundTrip obj of
             Inl e \<Rightarrow> Inl e
           | Inr result \<Rightarrow>
               (case navigateToPath result path of
                  Inl e \<Rightarrow> Inl e
                | Inr n \<Rightarrow>
                    if parent n = JNull then Inr v
                    else updAt (trail n) (\<lambda>p. assignProp p (key n) v) result))"

subsection \<open>Paths that stay within the data\<close>

text \<open>
  \<open>plainNav\<close> follows \<open>navLoop\<close> and holds when the navigation, and the assignment that
  \<^verbatim>\<open>setValueAtPath\<close> makes where it ends, stay within JSON data: no step reads an
  inherited member (\<open>inheritedKey\<close>), an array is indexed with a valid array index (from
  0 to 2^32 - 2), and the final assignment, if there is one, writes an own property of
  an object or an element of an array. (The last step on a primitive value is included:
  there the \<^verbatim>\<open>in\<close> test throws before anything is read.) On these paths the functions above compute
  what the program computes; on the others the program reaches the prototype objects,
  functions, or properties of an array that are not elements, none of which is a JSON
  value.
\<close>

fun plainNav :: "string list \<Rightarrow> json \<Rightarrow> bool" where
  "plainNav [] current = True"
| "plainNav (part # rest) current =
     (if parseInt part \<noteq> None \<and> isArray current then
        (let arrayIndex = the (parseInt part) in
         0 \<le> arrayIndex \<and> arrayIndex < 4294967295
         \<and> (rest = [] \<or> isNullish (arrGet current arrayIndex)
              \<or> plainNav rest (arrGet current arrayIndex)))
      else if rest = [] then
        (case current of
           JObj kvs \<Rightarrow> \<not> inheritedKey current part
         | JArr xs \<Rightarrow> False
         | _ \<Rightarrow> True)
      else
        \<not> inheritedKey current part
        \<and> (isNullish (getProp current part) \<or> plainNav rest (getProp current part)))"

text \<open>\<^verbatim>\<open>setValueAtPath(obj, path, v)\<close> stays within the data; it navigates the copy of \<open>obj\<close>.\<close>

definition plainUpdate :: "json \<Rightarrow> string \<Rightarrow> bool" where
  "plainUpdate obj path = plainNav (pathParts (cleanPath path)) (cloneValue obj)"

section \<open>Grid geometry\<close>

record grid =
  columns :: string
  rows :: string
  gap :: string
  templateAreas :: "string list"

text \<open>\<^verbatim>\<open>s.trim()\<close>: white space is removed from both ends.\<close>

definition trim :: "string \<Rightarrow> string" where
  "trim s = rev (dropWhile isSpace (rev (dropWhile isSpace s)))"

definition isQuote :: "char \<Rightarrow> bool" where
  "isQuote c = (c = CHR 0x22 \<or> c = CHR 0x27)"

text \<open>
  \<^verbatim>\<open>area.replace(/^["']|["']$/g, '')\<close>: one quote character is removed from the front
  and one from the end, where present.
\<close>

definition stripQuotes :: "string \<Rightarrow> string" where
  "stripQuotes s =
     (let s1 = (if s \<noteq> [] \<and> isQuote (hd s) then tl s else s)
      in if s1 \<noteq> [] \<and> isQuote (last s1) then butlast s1 else s1)"

definition normalizeArea :: "string \<Rightarrow> string" where
  "normalizeArea area = trim (stripQuotes area)"

text \<open>The words of a row string: maximal runs of characters that are not white space.\<close>

definition tokens :: "string \<Rightarrow> string list" where
  "tokens s = filter (\<lambda>t. t \<noteq> []) (splitOn isSpace [] s)"

fun dedupe :: "string list \<Rightarrow> string list \<Rightarrow> string list" where
  "dedupe seen [] = rev seen"
| "dedupe seen (x # xs) = (if x \<in> set seen then dedupe seen xs else dedupe (x # seen) xs)"

text \<open>
  Modelled from the spec: \<^verbatim>\<open>extractGridAreas\<close> is imported from a grid utility module
  that is not among the sources. Per the specification it tokenises each row on white
  space, drops the placeholder \<^verbatim>\<open>.\<close> and removes duplicates keeping the first
  occurrence (the dashboard view computes its own area list the same way). It is total.
\<close>

definition extractGridAreas :: "string list \<Rightarrow> string list" where
  "extractGridAreas tas = dedupe [] (filter (\<lambda>t. t \<noteq> ''.'') (concat (map tokens tas)))"

text \<open>
  Modelled from the spec: \<^verbatim>\<open>isValidGridArea\<close>, from the same missing module, is membership
  of the area in the extracted list.
\<close>

definition isValidGridArea :: "string \<Rightarrow> string list \<Rightarrow> bool" where
  "isValidGridArea area tas = (area \<in> set (extractGridAreas tas))"

text \<open>
  Modelled from the spec: \<^verbatim>\<open>isGridAreaOccupied\<close>, from the same missing module, holds when
  some component's \<^verbatim>\<open>gridArea\<close> equals the area; it is total. \<open>isGridAreaOccupiedIn\<close> is
  the test on the component map, \<open>isGridAreaOccupied\<close> below applies it to a state.
\<close>

definition isGridAreaOccupiedIn :: "string \<Rightarrow> (string \<times> json) list \<Rightarrow> bool" where
  "isGridAreaOccupiedIn area comps =
     list_ex (\<lambda>c. getProp c ''gridArea'' = JStr area) (map snd comps)"

text \<open>
  The result of \<^verbatim>\<open>validateGridLayout\<close>. The validator itself is not among the sources; the
  tools take it as a parameter. \<open>validateGridLayoutSpec\<close> below is one validator, used to
  run the tools on concrete layouts.
\<close>

record validation =
  valid :: bool
  errors :: "string list"

text \<open>
  Modelled from the spec: \<^verbatim>\<open>validateGridLayout\<close> checks that columns, rows and gap are
  non-empty, that there is at least one row, and that every row has the same number of
  tokens. (The specification also asks repeated area names to form one rectangular
  block and itself leaves open whether the validator enforces that; the check is not
  included here.) The wording of the error texts is this model's.
\<close>

definition validateGridLayoutSpec :: "grid \<Rightarrow> validation" where
  "validateGridLayoutSpec g =
     (let es =
        (if columns g = [] then [''columns is required''] else []) @
        (if rows g = [] then [''rows is required''] else []) @
        (if gap g = [] then [''gap is required''] else []) @
        (if templateAreas g = [] then [''templateAreas must not be empty''] else []) @
        (if list_ex (\<lambda>r. length (tokens r) \<noteq> length (tokens (hd (templateAreas g))))
               (templateAreas g)
         then [''all rows must have the same number of columns''] else [])
      in \<lparr>valid = (es = []), errors = es\<rparr>)"

section \<open>Dashboard state and tool results\<close>

text \<open>
  \<open>components\<close> is the object mapping component ids to component records, as the list of
  its properties in insertion order. A component is a JSON value: the tools read it by
  property name and \<^verbatim>\<open>update_component\<close> may store any value there. The dashboard's own
  metadata and the schema snapshot are never inspected by the tools modelled here.
\<close>

record dashboard_state =
  grid :: grid
  components :: "(string \<times> json) list"
  metadata :: json
  postgresSchema :: json
  graphqlEndpoint :: json

text \<open>\<^verbatim>\<open>state.components[id]\<close>.\<close>

definition componentOf :: "dashboard_state \<Rightarrow> string \<Rightarrow> json" where
  "componentOf st cid = getProp (JObj (components st)) cid"

text \<open>Modelled from the spec: \<^verbatim>\<open>isGridAreaOccupied(area, state)\<close>, see above.\<close>

definition isGridAreaOccupied :: "string \<Rightarrow> dashboard_state \<Rightarrow> bool" where
  "isGridAreaOccupied area st = isGridAreaOccupiedIn area (components st)"

text \<open>
  The \<^verbatim>\<open>error\<close> texts of the tool results, one constructor per message template with the
  values that are interpolated into it. \<open>Thrown m\<close> is the message of an \<^verbatim>\<open>Error\<close> caught
  by a tool's \<^verbatim>\<open>catch\<close> block, \<open>Failed\<close> the fixed fallback text used when the caught value
  is not an \<^verbatim>\<open>Error\<close>.
\<close>

datatype tool_error =
    InvalidLayout "string list"
  | WouldOrphan nat "json list" "string list"
  | AlreadyExists string
  | AreaNotFound string "string list"
  | AreaOccupied string json
  | NotFound string
  | Thrown string
  | Failed

datatype tool_message =
    GridConfigured
  | Created string string
  | Updated string
  | Removed string
  | Fetched string
  | Refreshed nat
  | SchemaConfigured
  | EndpointConfigured

text \<open>
  The uniform result \<^verbatim>\<open>{success, message?, data?, error?}\<close>. The \<^verbatim>\<open>data\<close> of a successful
  \<^verbatim>\<open>set_grid_layout\<close> or \<^verbatim>\<open>create_component\<close> echoes the request together with the
  output of \<^verbatim>\<open>getGridStats\<close>, a function that is not among the sources and that the
  specification describes as total; the model leaves \<open>data\<close> empty for these two.
\<close>

record response =
  success :: bool
  message :: "tool_message option"
  error :: "tool_error option"
  data :: "json option"

definition ok :: "tool_message \<Rightarrow> json option \<Rightarrow> response" where
  "ok m d = \<lparr>success = True, message = Some m, error = None, data = d\<rparr>"

definition fail :: "tool_error \<Rightarrow> response" where
  "fail e = \<lparr>success = False, message = None, error = Some e, data = None\<rparr>"

text \<open>\<^verbatim>\<open>error instanceof Error ? error.message : fallback\<close> in a tool's \<^verbatim>\<open>catch\<close> block.\<close>

fun caught :: "js_error \<Rightarrow> tool_error" where
  "caught (JsError n m) = Thrown m"
| "caught (NonError v) = Failed"

section \<open>Object literals\<close>

text \<open>
  The properties a spread \<^verbatim>\<open>...v\<close> copies into an object literal: the own properties of
  an object, the elements of an array or the characters of a string under their
  indices, and nothing for any other value.
\<close>

fun spreadProps :: "json \<Rightarrow> (string \<times> json) list" where
  "spreadProps (JObj kvs) = kvs"
| "spreadProps (JArr xs) = zip (map showNat [0..<length xs]) xs"
| "spreadProps (JStr s) = zip (map showNat [0..<length s]) (map (\<lambda>c. JStr [c]) s)"
| "spreadProps _ = []"

text \<open>
  Writing properties one after the other, as an object literal does: a key that is
  already there keeps its place and takes the new value, a new key goes to the end.
\<close>

definition objAssign :: "(string \<times> json) list \<Rightarrow> (string \<times> json) list \<Rightarrow> (string \<times> json) list" where
  "objAssign base props = foldl (\<lambda>acc kv. AList.update (fst kv) (snd kv) acc) base props"

section \<open>Dashboard tools: layout and components\<close>

fun includesArea :: "string list \<Rightarrow> json \<Rightarrow> bool" where
  "includesArea areas (JStr a) = (a \<in> set areas)"
| "includesArea areas _ = False"

text \<open>
  \<^verbatim>\<open>Object.values(components).filter(c => !newAreas.includes(c.gridArea))\<close>; reading
  \<^verbatim>\<open>c.gridArea\<close> throws when a stored component is \<^verbatim>\<open>null\<close> or \<^verbatim>\<open>undefined\<close>.
\<close>

fun orphanedComponents :: "string list \<Rightarrow> json list \<Rightarrow> js_error + json list" where
  "orphanedComponents newAreas [] = Inr []"
| "orphanedComponents newAreas (c # cs) =
     (case member c ''gridArea'' of
        Inl e \<Rightarrow> Inl e
      | Inr g \<Rightarrow>
          (case orphanedComponents newAreas cs of
             Inl e \<Rightarrow> Inl e
           | Inr r \<Rightarrow> Inr (if includesArea newAreas g then r else c # r)))"

definition set_grid_layout ::
  "(grid \<Rightarrow> validation) \<Rightarrow> grid \<Rightarrow> dashboard_state \<Rightarrow> response \<times> dashboard_state" where
  "set_grid_layout validateGridLayout params st =
     (let normalizedParams = params\<lparr>templateAreas := map normalizeArea (templateAreas params)\<rparr>;
          validation = validateGridLayout normalizedParams
      in if \<not> valid validation then (fail (InvalidLayout (errors validation)), st)
         else
           (let newAreas = extractGridAreas (templateAreas normalizedParams) in
            case orphanedComponents newAreas (map snd (components st)) of
              Inl e \<Rightarrow> (fail (caught e), st)
            | Inr orphaned \<Rightarrow>
                if length orphaned > 0 then
                  (fail (WouldOrphan (length orphaned)
                           (map (\<lambda>c. getProp c ''gridArea'') orphaned) newAreas), st)
                else (ok GridConfigured None, st\<lparr>grid := normalizedParams\<rparr>)))"

text \<open>
  The parameters of \<^verbatim>\<open>create_component\<close>; the source's \<^verbatim>\<open>type\<close> and \<^verbatim>\<open>data\<close> are
  \<open>ctype\<close> and \<open>cdata\<close> here. An optional parameter that is left out is \<^verbatim>\<open>undefined\<close>.
\<close>

record create_params =
  cid :: string
  ctype :: string
  gridArea :: string
  title :: string
  description :: json
  dataConfig :: json
  cdata :: json
  options :: json
  style :: json

text \<open>\<^verbatim>\<open>Object.values(components).find(c => c.gridArea === area)\<close>.\<close>

fun findByArea :: "string \<Rightarrow> json list \<Rightarrow> js_error + json" where
  "findByArea area [] = Inr JUndefined"
| "findByArea area (c # cs) =
     (case member c ''gridArea'' of
        Inl e \<Rightarrow> Inl e
      | Inr g \<Rightarrow> if g = JStr area then Inr c else findByArea area cs)"

definition newComponent :: "string \<Rightarrow> create_params \<Rightarrow> json" where
  "newComponent now p =
     JObj [(''id'', JStr (cid p)),
           (''type'', JStr (ctype p)),
           (''gridArea'', JStr (gridArea p)),
           (''title'', JStr (title p)),
           (''description'', description p),
           (''dataConfig'', dataConfig p),
           (''data'', if truthy (cdata p) then cdata p else JObj []),
           (''options'', options p),
           (''style'', style p),
           (''metadata'', JObj [(''createdAt'', JStr now), (''fetchStatus'', JStr ''idle'')])]"

definition create_component ::
  "string \<Rightarrow> create_params \<Rightarrow> dashboard_state \<Rightarrow> response \<times> dashboard_state" where
  "create_component now p st =
     (if truthy (componentOf st (cid p)) then (fail (AlreadyExists (cid p)), st)
      else if \<not> isValidGridArea (gridArea p) (templateAreas (grid st)) then
        (fail (AreaNotFound (gridArea p) (extractGridAreas (templateAreas (grid st)))), st)
      else if isGridAreaOccupied (gridArea p) st then
        (case findByArea (gridArea p) (map snd (components st)) of
           Inl e \<Rightarrow> (fail (caught e), st)
         | Inr existingComponent \<Rightarrow>
             (fail (AreaOccupied (gridArea p) (getProp existingComponent ''id'')), st))
      else
        (ok (Created (cid p) (gridArea p)) None,
         st\<lparr>components := AList.update (cid p) (newComponent now p) (components st)\<rparr>))"

text \<open>
  \<^verbatim>\<open>update_component\<close>: with a non-empty \<^verbatim>\<open>path\<close> the component is rewritten by
  \<^verbatim>\<open>setValueAtPath\<close>; otherwise \<^verbatim>\<open>updates\<close> is merged over the component, the id is
  pinned and \<^verbatim>\<open>updatedAt\<close> is stamped.
\<close>

definition mergedComponent :: "string \<Rightarrow> string \<Rightarrow> json \<Rightarrow> json \<Rightarrow> json" where
  "mergedComponent now ident component updates =
     JObj (objAssign (objAssign (spreadProps component) (spreadProps updates))
             [(''id'', JStr ident),
              (''metadata'',
               JObj (objAssign (spreadProps (getProp component ''metadata''))
                       [(''updatedAt'', JStr now)]))])"

definition update_component ::
  "string \<Rightarrow> string \<Rightarrow> string option \<Rightarrow> json \<Rightarrow> dashboard_state \<Rightarrow> response \<times> dashboard_state" where
  "update_component now ident path updates st =
     (let component = componentOf st ident in
      if \<not> truthy component then (fail (NotFound ident), st)
      else
        (case (case path of
                 Some p \<Rightarrow>
                   if p \<noteq> [] then setValueAtPath component p updates
                   else Inr (mergedComponent now ident component updates)
               | None \<Rightarrow> Inr (mergedComponent now ident component updates)) of
           Inl e \<Rightarrow> (fail (caught e), st)
         | Inr updatedComponent \<Rightarrow>
             (ok (Updated ident) (Some updatedComponent),
              st\<lparr>components := AList.update ident updatedComponent (components st)\<rparr>)))"

definition remove_component :: "string \<Rightarrow> dashboard_state \<Rightarrow> response \<times> dashboard_state" where
  "remove_component ident st =
     (if \<not> truthy (componentOf st ident) then (fail (NotFound ident), st)
      else (ok (Removed ident) None,
            st\<lparr>components := AList.delete ident (components st)\<rparr>))"

definition set_postgres_schema :: "json \<Rightarrow> dashboard_state \<Rightarrow> response \<times> dashboard_state" where
  "set_postgres_schema schema st =
     (ok SchemaConfigured (Some schema), st\<lparr>postgresSchema := schema\<rparr>)"

definition set_graphql_endpoint :: "json \<Rightarrow> dashboard_state \<Rightarrow> response \<times> dashboard_state" where
  "set_graphql_endpoint endpoint st =
     (ok EndpointConfigured (Some (JObj [(''endpoint'', endpoint)])),
      st\<lparr>graphqlEndpoint := endpoint\<rparr>)"

section \<open>Data fetcher\<close>

subsection \<open>Conversions\<close>

fun joinWith :: "string \<Rightarrow> string list \<Rightarrow> string" where
  "joinWith sep [] = []"
| "joinWith sep [x] = x"
| "joinWith sep (x # y # ys) = x @ sep @ joinWith sep (y # ys)"

text \<open>\<^verbatim>\<open>String(v)\<close>, as a template literal applies it.\<close>

fun toStringJs :: "json \<Rightarrow> string" where
  "toStringJs JUndefined = ''undefined''"
| "toStringJs JNull = ''null''"
| "toStringJs (JBool b) = (if b then ''true'' else ''false'')"
| "toStringJs (JNum n) = showInt n"
| "toStringJs (JStr s) = s"
| "toStringJs (JArr xs) = joinWith '','' (map (\<lambda>x. if isNullish x then [] else toStringJs x) xs)"
| "toStringJs (JObj kvs) = ''[object Object]''"

text \<open>
  The number a string denotes: white space around it is ignored, the empty string is
  zero, and an optionally signed run of decimal digits is its value. Every other string
  is NaN (\<open>None\<close>); the other numeric notations of JavaScript are not modelled.
\<close>

definition strToNumber :: "string \<Rightarrow> int option" where
  "strToNumber str =
     (let s = trim str in
      if s = [] then Some 0
      else if hd s = CHR ''-'' \<and> tl s \<noteq> [] \<and> list_all isDigit (tl s) then Some (- int (digitsVal (tl s)))
      else if hd s = CHR ''+'' \<and> tl s \<noteq> [] \<and> list_all isDigit (tl s) then Some (int (digitsVal (tl s)))
      else if list_all isDigit s then Some (int (digitsVal s))
      else None)"

fun toNumber :: "json \<Rightarrow> int option" where
  "toNumber JUndefined = None"
| "toNumber JNull = Some 0"
| "toNumber (JBool b) = Some (if b then 1 else 0)"
| "toNumber (JNum n) = Some n"
| "toNumber (JStr s) = strToNumber s"
| "toNumber (JArr xs) = strToNumber (toStringJs (JArr xs))"
| "toNumber (JObj kvs) = None"

text \<open>\<^verbatim>\<open>age > maxAge\<close> with a number on the left; a comparison with NaN is false.\<close>

definition jsGreater :: "int \<Rightarrow> json \<Rightarrow> bool" where
  "jsGreater a v = (case toNumber v of Some m \<Rightarrow> a > m | None \<Rightarrow> False)"

text \<open>\<^verbatim>\<open>error instanceof Error ? error.message : 'Unknown error'\<close>.\<close>

fun errMessage :: "js_error \<Rightarrow> string" where
  "errMessage (JsError n m) = m"
| "errMessage (NonError v) = ''Unknown error''"

text \<open>The text of a thrown value inside a template literal.\<close>

fun errToString :: "js_error \<Rightarrow> string" where
  "errToString (JsError n m) = (if m = [] then n else n @ '': '' @ m)"
| "errToString (NonError v) = toStringJs v"

subsection \<open>The outside world\<close>

text \<open>
  What a POST through \<^verbatim>\<open>fetch\<close> can come to: the call rejects (transport failure), or a
  response arrives with its \<^verbatim>\<open>ok\<close> flag, its status text and the outcome of parsing its
  body as JSON.
\<close>

datatype http_outcome =
    Rejected js_error
  | Responded bool string "js_error + json"

text \<open>
  The collaborators of the fetcher that are not part of the repository: the network,
  the Handlebars engine (compile and render in one step, yielding the rendered text or
  what it throws), \<^verbatim>\<open>JSON.parse\<close> and the alasql engine.
\<close>

record env =
  fetchAvailable :: bool
  httpPost :: "json \<Rightarrow> json \<Rightarrow> http_outcome"
  handlebars :: "json \<Rightarrow> json \<Rightarrow> js_error + string"
  jsonParse :: "string \<Rightarrow> json option"
  alasql :: "json \<Rightarrow> json \<Rightarrow> js_error + json"

text \<open>
  The readings of the clock during one tool call: \<^verbatim>\<open>Date.now()\<close> when the cache is
  consulted, \<^verbatim>\<open>Date.now()\<close> when a result is stored, and the ISO time stamp written
  into the component.
\<close>

record clock =
  nowMs :: int
  storeMs :: int
  nowIso :: string

text \<open>
  The state of a \<^verbatim>\<open>DataFetcher\<close>: the cache from component ids to the stored data and
  its time stamp in milliseconds, and the two configured endpoints (the GraphQL one is
  \<open>defaultGraphqlEndpoint\<close> here). \<open>posted\<close> is the list of requests sent so far, endpoint
  and body, the fetcher's one effect on the world outside.
\<close>

record fetcher =
  cache :: "string \<rightharpoonup> (json \<times> int)"
  mcpPostgresEndpoint :: "string option"
  defaultGraphqlEndpoint :: "string option"
  posted :: "(json \<times> json) list"

subsection \<open>Sources\<close>

text \<open>The soft error value \<^verbatim>\<open>{ error: reason }\<close> that a source returns in place of data.\<close>

definition softError :: "json \<Rightarrow> json" where
  "softError reason = JObj [(''error'', reason)]"

text \<open>A \<^verbatim>\<open>try\<close> block whose \<^verbatim>\<open>catch\<close> returns the soft error value.\<close>

fun catchSoft :: "js_error + json \<Rightarrow> js_error + json" where
  "catchSoft (Inl e) = Inr (softError (JStr (errMessage e)))"
| "catchSoft (Inr v) = Inr v"

fun postgresResponse :: "http_outcome \<Rightarrow> js_error + json" where
  "postgresResponse (Rejected e) = Inl e"
| "postgresResponse (Responded isOk statusText parsed) =
     (if \<not> isOk then Inr (softError (JStr statusText))
      else case parsed of
             Inl e \<Rightarrow> Inl e
           | Inr result \<Rightarrow>
               (case member result ''data'' of
                  Inl e \<Rightarrow> Inl e
                | Inr d \<Rightarrow> Inr (if truthy d then d else result)))"

definition fetchFromPostgreSQL ::
  "env \<Rightarrow> fetcher \<Rightarrow> json \<Rightarrow> (js_error + json) \<times> fetcher" where
  "fetchFromPostgreSQL ev f source =
     (if mcpPostgresEndpoint f = None \<or> mcpPostgresEndpoint f = Some [] then
        (Inr (softError (JStr ''PostgreSQL endpoint not configured'')), f)
      else if \<not> fetchAvailable ev then (Inr (softError (JStr ''fetch not available'')), f)
      else
        (case member source ''query'' of
           Inl e \<Rightarrow> (catchSoft (Inl e), f)
         | Inr q \<Rightarrow>
             (let url = JStr (the (mcpPostgresEndpoint f));
                  body = cloneValue (JObj [(''query'', q),
                                           (''params'', getProp source ''params''),
                                           (''schema'', getProp source ''schema'')])
              in (catchSoft (postgresResponse (httpPost ev url body)),
                  f\<lparr>posted := posted f @ [(url, body)]\<rparr>))))"

fun graphqlResponse :: "http_outcome \<Rightarrow> js_error + json" where
  "graphqlResponse (Rejected e) = Inl e"
| "graphqlResponse (Responded isOk statusText parsed) =
     (if \<not> isOk then Inr (softError (JStr statusText))
      else case parsed of
             Inl e \<Rightarrow> Inl e
           | Inr result \<Rightarrow>
               (case member result ''errors'' of
                  Inl e \<Rightarrow> Inl e
                | Inr es \<Rightarrow>
                    if truthy es then Inr (softError es) else Inr (getProp result ''data'')))"

definition fetchFromGraphQL ::
  "env \<Rightarrow> fetcher \<Rightarrow> json \<Rightarrow> (js_error + json) \<times> fetcher" where
  "fetchFromGraphQL ev f source =
     (case member source ''endpoint'' of
        Inl e \<Rightarrow> (Inl e, f)
      | Inr own \<Rightarrow>
          (let endpoint =
                 (if truthy own then own
                  else case defaultGraphqlEndpoint f of
                         Some s \<Rightarrow> JStr s
                       | None \<Rightarrow> JUndefined)
           in if \<not> truthy endpoint then
                (Inr (softError (JStr ''GraphQL endpoint not configured'')), f)
              else if \<not> fetchAvailable ev then
                (Inr (softError (JStr ''fetch not available'')), f)
              else
                (let body = cloneValue (JObj [(''query'', getProp source ''query''),
                                              (''variables'', getProp source ''variables'')])
                 in (catchSoft (graphqlResponse (httpPost ev endpoint body)),
                     f\<lparr>posted := posted f @ [(endpoint, body)]\<rparr>))))"

definition fetchFromStatic :: "json \<Rightarrow> js_error + json" where
  "fetchFromStatic source = member source ''data''"

definition fetchFromSource ::
  "env \<Rightarrow> fetcher \<Rightarrow> json \<Rightarrow> (js_error + json) \<times> fetcher" where
  "fetchFromSource ev f source =
     (case member source ''type'' of
        Inl e \<Rightarrow> (Inl e, f)
      | Inr t \<Rightarrow>
          if t = JStr ''postgresql'' then fetchFromPostgreSQL ev f source
          else if t = JStr ''graphql'' then fetchFromGraphQL ev f source
          else if t = JStr ''static'' then (fetchFromStatic source, f)
          else (Inl (JsError ''Error'' (''Unknown data source type: '' @ toStringJs t)), f))"

subsection \<open>Transforms\<close>

text \<open>
  Everything inside \<^verbatim>\<open>applyHandlebarsTemplate\<close> runs in a \<^verbatim>\<open>try\<close> whose \<^verbatim>\<open>catch\<close> rethrows
  with a prefixed message. A rendered text that starts like JSON is parsed; when the
  parse fails the text itself is the result.
\<close>

definition applyHandlebarsTemplate :: "env \<Rightarrow> json \<Rightarrow> json \<Rightarrow> js_error + json" where
  "applyHandlebarsTemplate ev d templateConfig =
     (case handlebars ev (getProp templateConfig ''template'')
             (JObj (objAssign [(''data'', d)] (spreadProps (getProp templateConfig ''context'')))) of
        Inl e \<Rightarrow> Inl (JsError ''Error'' (''Handlebars template failed: '' @ errToString e))
      | Inr result \<Rightarrow>
          if startsWith result ''{'' \<or> startsWith result ''[''
          then (case jsonParse ev result of Some parsed \<Rightarrow> Inr parsed | None \<Rightarrow> Inr (JStr result))
          else Inr (JStr result))"

definition applyAlaSQLTransform :: "env \<Rightarrow> json \<Rightarrow> json \<Rightarrow> js_error + json" where
  "applyAlaSQLTransform ev d transform =
     (case alasql ev (getProp transform ''query'')
             (JArr [if isArray d then d else JArr [d], getProp transform ''params'']) of
        Inl e \<Rightarrow> Inl (JsError ''Error'' (''AlaSQL transform failed: '' @ errToString e))
      | Inr result \<Rightarrow> Inr result)"

subsection \<open>Cache\<close>

text \<open>
  \<^verbatim>\<open>getFromCache\<close> answers \<^verbatim>\<open>null\<close> for a miss. \<open>ttl\<close> is whatever the configuration holds
  under \<^verbatim>\<open>cache.ttl\<close>; a falsy one (absent, or zero) is replaced by 60000.
\<close>

definition getFromCache :: "int \<Rightarrow> fetcher \<Rightarrow> string \<Rightarrow> json \<Rightarrow> json \<times> fetcher" where
  "getFromCache now f componentId ttl =
     (case cache f componentId of
        None \<Rightarrow> (JNull, f)
      | Some cached \<Rightarrow>
          (let age = now - snd cached;
               maxAge = (if truthy ttl then ttl else JNum 60000)
           in if jsGreater age maxAge
              then (JNull, f\<lparr>cache := (cache f)(componentId := None)\<rparr>)
              else (fst cached, f)))"

definition setCache :: "int \<Rightarrow> fetcher \<Rightarrow> string \<Rightarrow> json \<Rightarrow> fetcher" where
  "setCache now f componentId d = f\<lparr>cache := (cache f)(componentId \<mapsto> (d, now))\<rparr>"

definition clearCache :: "string option \<Rightarrow> fetcher \<Rightarrow> fetcher" where
  "clearCache componentId f =
     (case componentId of
        Some i \<Rightarrow> if i \<noteq> [] then f\<lparr>cache := (cache f)(i := None)\<rparr> else f\<lparr>cache := Map.empty\<rparr>
      | None \<Rightarrow> f\<lparr>cache := Map.empty\<rparr>)"

subsection \<open>\<^verbatim>\<open>fetchData\<close>\<close>

text \<open>
  The part of \<^verbatim>\<open>fetchData\<close> after the cache lookup: resolve the source, apply the
  configured transforms in order, store the result when caching is enabled.
\<close>

definition fetchFresh ::
  "env \<Rightarrow> clock \<Rightarrow> fetcher \<Rightarrow> string \<Rightarrow> json \<Rightarrow> (js_error + json) \<times> fetcher" where
  "fetchFresh ev clk f componentId config =
     (case fetchFromSource ev f (getProp config ''source'') of
        (Inl e, f1) \<Rightarrow> (Inl e, f1)
      | (Inr rawData, f1) \<Rightarrow>
          (case (if truthy (getProp config ''handlebarsTemplate'')
                 then applyHandlebarsTemplate ev rawData (getProp config ''handlebarsTemplate'')
                 else Inr rawData) of
             Inl e \<Rightarrow> (Inl e, f1)
           | Inr templated \<Rightarrow>
               (case (if truthy (getProp config ''alasqlTransform'')
                      then applyAlaSQLTransform ev templated (getProp config ''alasqlTransform'')
                      else Inr templated) of
                  Inl e \<Rightarrow> (Inl e, f1)
                | Inr transformed \<Rightarrow>
                    (Inr transformed,
                     if truthy (getProp (getProp config ''cache'') ''enabled'')
                     then setCache (storeMs clk) f1 componentId transformed
                     else f1))))"

text \<open>
  \<^verbatim>\<open>fetchData\<close>. Reading \<^verbatim>\<open>config.cache\<close> throws when the configuration itself is \<^verbatim>\<open>null\<close>
  or \<^verbatim>\<open>undefined\<close>; the \<^verbatim>\<open>catch\<close> of \<^verbatim>\<open>fetchData\<close> logs and rethrows, so every error
  reaches the caller.
\<close>

definition fetchData ::
  "env \<Rightarrow> clock \<Rightarrow> fetcher \<Rightarrow> string \<Rightarrow> json \<Rightarrow> (js_error + json) \<times> fetcher" where
  "fetchData ev clk f componentId config =
     (case member config ''cache'' of
        Inl e \<Rightarrow> (Inl e, f)
      | Inr cacheConfig \<Rightarrow>
          if truthy (getProp cacheConfig ''enabled'') then
            (case getFromCache (nowMs clk) f componentId (getProp cacheConfig ''ttl'') of
               (cached, f1) \<Rightarrow>
                 if cached \<noteq> JNull then (Inr cached, f1)
                 else fetchFresh ev clk f1 componentId config)
          else fetchFresh ev clk f componentId config)"

section \<open>Dashboard tools: fetching\<close>

text \<open>\<^verbatim>\<open>{...c, metadata: {...c.metadata, ...props}}\<close> and the same with a new \<^verbatim>\<open>data\<close>.\<close>

definition withMetadata :: "json \<Rightarrow> (string \<times> json) list \<Rightarrow> json" where
  "withMetadata c props =
     JObj (objAssign (spreadProps c)
             [(''metadata'', JObj (objAssign (spreadProps (getProp c ''metadata'')) props))])"

definition withData :: "json \<Rightarrow> json \<Rightarrow> (string \<times> json) list \<Rightarrow> json" where
  "withData c d props =
     JObj (objAssign (spreadProps c)
             [(''data'', d),
              (''metadata'', JObj (objAssign (spreadProps (getProp c ''metadata'')) props))])"

definition setComponent :: "string \<Rightarrow> json \<Rightarrow> dashboard_state \<Rightarrow> dashboard_state" where
  "setComponent ident c st = st\<lparr>components := AList.update ident c (components st)\<rparr>"

definition fetch_component_data ::
  "env \<Rightarrow> clock \<Rightarrow> string \<Rightarrow> dashboard_state \<times> fetcher
     \<Rightarrow> response \<times> dashboard_state \<times> fetcher" where
  "fetch_component_data ev clk ident sf =
     (let st = fst sf; f = snd sf; component = componentOf st ident in
      if \<not> truthy component then (fail (NotFound ident), st, f)
      else
        (let loading = setComponent ident
                         (withMetadata component [(''fetchStatus'', JStr ''loading'')]) st
         in case fetchData ev clk f ident (getProp component ''dataConfig'') of
              (Inr fetchedData, f1) \<Rightarrow>
                (ok (Fetched ident) (Some fetchedData),
                 setComponent ident
                   (withData (componentOf loading ident) fetchedData
                      [(''fetchStatus'', JStr ''success''),
                       (''lastFetchedAt'', JStr (nowIso clk)),
                       (''error'', JUndefined)])
                   loading,
                 f1)
            | (Inl e, f1) \<Rightarrow>
                (fail (caught e),
                 setComponent ident
                   (withMetadata (componentOf loading ident)
                      [(''fetchStatus'', JStr ''error''),
                       (''error'', JStr (errMessage e))])
                   loading,
                 f1)))"

text \<open>
  \<^verbatim>\<open>refresh_all_components\<close> starts one \<^verbatim>\<open>fetchData\<close> per component id in key order and
  waits for all of them to settle. Each fetch reads and writes only the cache entry of
  its own id, so running them one after the other gives the same results. Reading
  \<^verbatim>\<open>dataConfig\<close> of a component that is \<^verbatim>\<open>null\<close> throws while the fetches are being
  started, which ends the tool call with a failure before any state update.
\<close>

fun startFetches ::
  "env \<Rightarrow> clock \<Rightarrow> dashboard_state \<Rightarrow> string list \<Rightarrow> fetcher
     \<Rightarrow> (js_error + (js_error + json) list) \<times> fetcher" where
  "startFetches ev clk st [] f = (Inr [], f)"
| "startFetches ev clk st (i # ids) f =
     (case member (componentOf st i) ''dataConfig'' of
        Inl e \<Rightarrow> (Inl e, f)
      | Inr config \<Rightarrow>
          (case fetchData ev clk f i config of
             (r, f1) \<Rightarrow>
               (case startFetches ev clk st ids f1 of
                  (Inl e, f2) \<Rightarrow> (Inl e, f2)
                | (Inr rs, f2) \<Rightarrow> (Inr (r # rs), f2))))"

text \<open>\<^verbatim>\<open>result.reason?.message || 'Unknown error'\<close>.\<close>

fun reasonMessage :: "js_error \<Rightarrow> json" where
  "reasonMessage (JsError n m) = (if m \<noteq> [] then JStr m else JStr ''Unknown error'')"
| "reasonMessage (NonError v) =
     (if truthy (getProp v ''message'') then getProp v ''message'' else JStr ''Unknown error'')"

fun settle :: "clock \<Rightarrow> json \<Rightarrow> js_error + json \<Rightarrow> json" where
  "settle clk c (Inr v) =
     withData c v [(''fetchStatus'', JStr ''success''),
                   (''lastFetchedAt'', JStr (nowIso clk)),
                   (''error'', JUndefined)]"
| "settle clk c (Inl reason) =
     withMetadata c [(''fetchStatus'', JStr ''error''), (''error'', reasonMessage reason)]"

fun applyResults ::
  "clock \<Rightarrow> (string \<times> (js_error + json)) list \<Rightarrow> (string \<times> json) list \<Rightarrow> (string \<times> json) list" where
  "applyResults clk [] updatedComponents = updatedComponents"
| "applyResults clk ((i, result) # rest) updatedComponents =
     applyResults clk rest
       (AList.update i (settle clk (getProp (JObj updatedComponents) i) result) updatedComponents)"

definition refresh_all_components ::
  "env \<Rightarrow> clock \<Rightarrow> dashboard_state \<times> fetcher \<Rightarrow> response \<times> dashboard_state \<times> fetcher" where
  "refresh_all_components ev clk sf =
     (let st = fst sf; f = snd sf; componentIds = map fst (components st) in
      case startFetches ev clk st componentIds f of
        (Inl e, f1) \<Rightarrow> (fail (caught e), st, f1)
      | (Inr results, f1) \<Rightarrow>
          (ok (Refreshed (length componentIds))
              (Some (JObj [(''refreshedCount'', JNum (int (length componentIds)))])),
           st\<lparr>components := applyResults clk (zip componentIds results) (components st)\<rparr>,
           f1))"

section \<open>Path addressing with object identity\<close>

text \<open>
  The functions above treat a JavaScript value as the tree it denotes. Whether
  \<^verbatim>\<open>setValueAtPath\<close> leaves its argument alone is a question about object identity, so
  this section models the same code over a store: an object or array is a cell of the
  heap, a value is a primitive or a reference to a cell, and assignment overwrites a
  cell in place.
\<close>

text \<open>
  Values: primitives, and references to heap cells.
\<close>

datatype hval = HUndefined | HNull | HBool bool | HNum int | HStr string | HRef nat

datatype hobj = HArr "hval list" | HObj "(string \<times> hval) list"

text \<open>
  The heap is the list of its cells; a reference is an index into it, and a new object
  is appended at the end.
\<close>

type_synonym heap = "hobj list"


definition cell :: "heap \<Rightarrow> nat \<Rightarrow> hobj option" where
  "cell h a = (if a < length h then Some (h ! a) else None)"

text \<open>
  \<^verbatim>\<open>JSON.stringify\<close>, as the JSON value it writes, before the parser reads it back. It
  keeps the stack of the objects it is inside of and throws a TypeError when it meets
  one of them again. The first argument is a depth bound that makes the recursion
  structural; \<open>stringifyH\<close> starts with more fuel than the heap has cells, and
  \<open>stringifyH_fuel\<close> below shows that it never runs out. A reference to a cell that does
  not exist has no counterpart in JavaScript.
\<close>

datatype ser_error = Circular | Dangling | OutOfFuel

fun serialize :: "nat \<Rightarrow> nat list \<Rightarrow> heap \<Rightarrow> hval \<Rightarrow> ser_error + json"
  and serializeList :: "nat \<Rightarrow> nat list \<Rightarrow> heap \<Rightarrow> hval list \<Rightarrow> ser_error + json list"
  and serializeProps ::
    "nat \<Rightarrow> nat list \<Rightarrow> heap \<Rightarrow> (string \<times> hval) list \<Rightarrow> ser_error + (string \<times> json) list"
where
  "serialize n stk h HUndefined = Inr JUndefined"
| "serialize n stk h HNull = Inr JNull"
| "serialize n stk h (HBool b) = Inr (JBool b)"
| "serialize n stk h (HNum i) = Inr (JNum i)"
| "serialize n stk h (HStr s) = Inr (JStr s)"
| "serialize 0 stk h (HRef a) = Inl OutOfFuel"
| "serialize (Suc n) stk h (HRef a) =
     (if a \<in> set stk then Inl Circular
      else case cell h a of
             None \<Rightarrow> Inl Dangling
           | Some (HArr vs) \<Rightarrow>
               (case serializeList n (a # stk) h vs of
                  Inl e \<Rightarrow> Inl e
                | Inr js \<Rightarrow> Inr (JArr js))
           | Some (HObj kvs) \<Rightarrow>
               (case serializeProps n (a # stk) h kvs of
                  Inl e \<Rightarrow> Inl e
                | Inr kjs \<Rightarrow> Inr (JObj kjs)))"
| "serializeList n stk h [] = Inr []"
| "serializeList n stk h (v # vs) =
     (case serialize n stk h v of
        Inl e \<Rightarrow> Inl e
      | Inr j \<Rightarrow>
          (case serializeList n stk h vs of
             Inl e \<Rightarrow> Inl e
           | Inr js \<Rightarrow> Inr (j # js)))"
| "serializeProps n stk h [] = Inr []"
| "serializeProps n stk h (kv # kvs) =
     (case serialize n stk h (snd kv) of
        Inl e \<Rightarrow> Inl e
      | Inr j \<Rightarrow>
          (case serializeProps n stk h kvs of
             Inl e \<Rightarrow> Inl e
           | Inr kjs \<Rightarrow> Inr ((fst kv, j) # kjs)))"

definition stringifyH :: "heap \<Rightarrow> hval \<Rightarrow> ser_error + json" where
  "stringifyH h v = serialize (Suc (length h)) [] h v"

















section \<open>Predicates and example states used in the properties\<close>

text \<open>The new layout leaves out the area of at least one stored component.\<close>

definition strandedComponents :: "grid \<Rightarrow> dashboard_state \<Rightarrow> json list" where
  "strandedComponents params st =
     filter (\<lambda>c. \<not> includesArea (extractGridAreas (map normalizeArea (templateAreas params)))
                     (getProp c ''gridArea''))
       (map snd (components st))"

definition strandsComponent :: "grid \<Rightarrow> dashboard_state \<Rightarrow> bool" where
  "strandsComponent params st = (strandedComponents params st \<noteq> [])"

fun namesOrphans :: "tool_error option \<Rightarrow> bool" where
  "namesOrphans (Some (WouldOrphan n gs as)) = True"
| "namesOrphans _ = False"

text \<open>How many components sit in an area.\<close>

definition areaCount :: "string \<Rightarrow> dashboard_state \<Rightarrow> nat" where
  "areaCount area st =
     length (filter (\<lambda>c. getProp c ''gridArea'' = JStr area) (map snd (components st)))"

text \<open>
  The invariants of the data model: ids are unique, every component names an area of
  the current layout, and no area holds more than one component.
\<close>

definition invariants :: "dashboard_state \<Rightarrow> bool" where
  "invariants st =
     (distinct (map fst (components st)) \<and>
      list_all (\<lambda>c. case getProp c ''gridArea'' of
                       JStr a \<Rightarrow> isValidGridArea a (templateAreas (grid st)) \<and> areaCount a st = 1
                     | _ \<Rightarrow> False)
        (map snd (components st)))"

definition scenarioGrid :: grid where
  "scenarioGrid = \<lparr>columns = ''1fr 1fr'', rows = ''auto 1fr'', gap = ''16px'',
                   templateAreas = [''header header'', ''sidebar main'']\<rparr>"

definition emptyDashboard :: dashboard_state where
  "emptyDashboard = \<lparr>grid = scenarioGrid, components = [], metadata = JNull,
                     postgresSchema = JUndefined, graphqlEndpoint = JUndefined\<rparr>"

definition staticConfig :: "json \<Rightarrow> json" where
  "staticConfig d = JObj [(''source'', JObj [(''type'', JStr ''static''), (''data'', d)])]"

definition tableParams :: "string \<Rightarrow> string \<Rightarrow> create_params" where
  "tableParams i a = \<lparr>cid = i, ctype = ''table'', gridArea = a, title = ''Sales'',
     description = JUndefined, dataConfig = staticConfig (JArr []),
     cdata = JUndefined, options = JUndefined, style = JUndefined\<rparr>"

definition twoComponents :: dashboard_state where
  "twoComponents = emptyDashboard\<lparr>components :=
     [(''c1'', newComponent ''2025-01-01T00:00:00.000Z'' (tableParams ''c1'' ''main'')),
      (''c2'', newComponent ''2025-01-01T00:00:01.000Z'' (tableParams ''c2'' ''sidebar''))]\<rparr>"


text \<open>\<^verbatim>\<open>c.metadata?.updatedAt\<close>.\<close>

definition updatedAtOf :: "json \<Rightarrow> json" where
  "updatedAtOf c = getProp (getProp c ''metadata'') ''updatedAt''"


definition metadataOf :: "json \<Rightarrow> json" where "metadataOf j = getProp j ''metadata''"

text \<open>A dashboard whose one component has no \<^verbatim>\<open>metadata\<close>.\<close>

definition bareState :: dashboard_state where
  "bareState = emptyDashboard\<lparr>components :=
     [(''c1'', JObj [(''id'', JStr ''c1''), (''gridArea'', JStr ''main'')])]\<rparr>"


text \<open>
  \<^verbatim>\<open>c.metadata?.fetchStatus\<close>.
\<close>

definition fetchStatusOf :: "json \<Rightarrow> json" where
  "fetchStatusOf c = getProp (getProp c ''metadata'') ''fetchStatus''"

text \<open>
  \<^verbatim>\<open>c.metadata?.error\<close>.
\<close>

definition fetchErrorOf :: "json \<Rightarrow> json" where
  "fetchErrorOf c = getProp (getProp c ''metadata'') ''error''"

text \<open>
  The fetcher as the dashboard tools construct it: both endpoints configured, nothing cached, nothing sent.
\<close>

definition toolsFetcher :: fetcher where
  "toolsFetcher = \<lparr>cache = Map.empty, mcpPostgresEndpoint = Some ''/api/mcp/postgres'',
                    defaultGraphqlEndpoint = Some ''/graphql'', posted = []\<rparr>"

definition exampleClock :: clock where
  "exampleClock = \<lparr>nowMs = 1000000, storeMs = 1000040, nowIso = ''2025-01-04T00:00:00.000Z''\<rparr>"

text \<open>
  A world in which the network is down and the template engine rejects every template.
\<close>

definition brokenTemplateEnv :: env where
  "brokenTemplateEnv =
     \<lparr>fetchAvailable = True,
      httpPost = (\<lambda>url body. Rejected (JsError ''TypeError'' ''Failed to fetch'')),
      handlebars = (\<lambda>t c. Inl (JsError ''Error'' ''Parse error on line 1'')),
      jsonParse = (\<lambda>s. None),
      alasql = (\<lambda>q a. Inr (JArr []))\<rparr>"

text \<open>
  A static source followed by a template transform.
\<close>

definition templatedConfig :: json where
  "templatedConfig =
     JObj [(''source'', JObj [(''type'', JStr ''static''), (''data'', JArr [JNum 1])]),
           (''handlebarsTemplate'', JObj [(''template'', JStr ''{{#each data}}'')])]"

definition templatedState :: dashboard_state where
  "templatedState = emptyDashboard\<lparr>components :=
     [(''c1'', newComponent ''2025-01-01T00:00:00.000Z''
                 ((tableParams ''c1'' ''main'')\<lparr>dataConfig := templatedConfig,
                                                 cdata := JObj [(''rows'', JArr [JNum 7])]\<rparr>))]\<rparr>"

text \<open>
  A configured \<^verbatim>\<open>cache.ttl\<close>: a number of milliseconds, or absent.
\<close>

fun ttlJson :: "int option \<Rightarrow> json" where
  "ttlJson None = JUndefined"
| "ttlJson (Some n) = JNum n"

text \<open>
  The age up to which a cache entry is served: the configured ttl, and 60000 when the ttl
  is absent or zero.
\<close>

fun maxAgeOf :: "int option \<Rightarrow> int" where
  "maxAgeOf None = 60000"
| "maxAgeOf (Some n) = (if n = 0 then 60000 else n)"

text \<open>
  A PostgreSQL source with caching enabled.
\<close>

definition cachedPostgresConfig :: "int option \<Rightarrow> json" where
  "cachedPostgresConfig ttl =
     JObj [(''source'', JObj [(''type'', JStr ''postgresql''), (''query'', JStr ''SELECT 1'')]),
           (''cache'', JObj [(''enabled'', JBool True), (''ttl'', ttlJson ttl)])]"

text \<open>
  A world in which every request is answered with one row.
\<close>

definition respondingEnv :: env where
  "respondingEnv =
     \<lparr>fetchAvailable = True,
      httpPost = (\<lambda>url body. Responded True ''OK'' (Inr (JObj [(''data'', JArr [JNum 1])]))),
      handlebars = (\<lambda>t c. Inr ''[]''),
      jsonParse = (\<lambda>s. None),
      alasql = (\<lambda>q a. Inr (JArr []))\<rparr>"

definition clockAt :: "int \<Rightarrow> clock" where
  "clockAt t = \<lparr>nowMs = t, storeMs = t, nowIso = ''2025-01-04T00:00:00.000Z''\<rparr>"

text \<open>
  The tools' fetcher holding one cache entry for \<^verbatim>\<open>c1\<close>.
\<close>

definition cachedFetcher :: "json \<Rightarrow> int \<Rightarrow> fetcher" where
  "cachedFetcher d ts = toolsFetcher\<lparr>cache := [''c1'' \<mapsto> (d, ts)]\<rparr>"

text \<open>
  The cache lookup at the head of \<^verbatim>\<open>fetchData\<close>: the stored data that is served, or
  \<^verbatim>\<open>null\<close> when caching is not enabled or \<^verbatim>\<open>getFromCache\<close> finds nothing fresh, and the
  fetcher after the lookup.
\<close>

definition cacheLookup :: "clock \<Rightarrow> fetcher \<Rightarrow> string \<Rightarrow> json \<Rightarrow> json \<times> fetcher" where
  "cacheLookup clk f componentId config =
     (if truthy (getProp (getProp config ''cache'') ''enabled'')
      then getFromCache (nowMs clk) f componentId (getProp (getProp config ''cache'') ''ttl'')
      else (JNull, f))"

text \<open>
  The address a PostgreSQL or GraphQL source is requested from: the fetcher's PostgreSQL
  endpoint, or the GraphQL source's own endpoint and otherwise the fetcher's default
  one; \<^verbatim>\<open>undefined\<close> when none is configured.
\<close>

definition endpointOf :: "fetcher \<Rightarrow> json \<Rightarrow> json" where
  "endpointOf f source =
     (if getProp source ''type'' = JStr ''postgresql'' then
        (case mcpPostgresEndpoint f of Some s \<Rightarrow> JStr s | None \<Rightarrow> JUndefined)
      else if truthy (getProp source ''endpoint'') then getProp source ''endpoint''
      else (case defaultGraphqlEndpoint f of Some s \<Rightarrow> JStr s | None \<Rightarrow> JUndefined))"

text \<open>Two fetcher states with the same configured endpoints.\<close>

definition sameEndpoints :: "fetcher \<Rightarrow> fetcher \<Rightarrow> bool" where
  "sameEndpoints f' f =
     (mcpPostgresEndpoint f' = mcpPostgresEndpoint f
      \<and> defaultGraphqlEndpoint f' = defaultGraphqlEndpoint f)"


definition postgresSource :: json where
  "postgresSource = JObj [(''type'', JStr ''postgresql''), (''query'', JStr ''SELECT 1'')]"

definition graphqlSource :: json where
  "graphqlSource = JObj [(''type'', JStr ''graphql''), (''query'', JStr ''{ orders { id } }'')]"





text \<open>
  \<^verbatim>\<open>c.data\<close>.
\<close>

definition dataOf :: "json \<Rightarrow> json" where
  "dataOf c = getProp c ''data''"

text \<open>
  The number of components with a given \<^verbatim>\<open>fetchStatus\<close>.
\<close>

definition statusCount :: "string \<Rightarrow> dashboard_state \<Rightarrow> nat" where
  "statusCount s st =
     length (filter (\<lambda>c. fetchStatusOf c = JStr s) (map snd (components st)))"

text \<open>
  A world in which the PostgreSQL endpoint is unreachable and every other endpoint answers.
\<close>

definition postgresDownEnv :: env where
  "postgresDownEnv =
     \<lparr>fetchAvailable = True,
      httpPost = (\<lambda>url body.
        if url = JStr ''/api/mcp/postgres''
        then Rejected (JsError ''TypeError'' ''Failed to fetch'')
        else Responded True ''OK'' (Inr (JObj [(''data'', JObj [(''orders'', JArr [])])]))),
      handlebars = (\<lambda>t c. Inr ''[]''),
      jsonParse = (\<lambda>s. None),
      alasql = (\<lambda>q a. Inr (JArr []))\<rparr>"

definition postgresComponent :: json where
  "postgresComponent =
     newComponent ''2025-01-01T00:00:02.000Z''
       ((tableParams ''c3'' ''main'')\<lparr>dataConfig := JObj [(''source'', postgresSource)]\<rparr>)"

text \<open>
  Three components: a static one, one fed from GraphQL and one fed from PostgreSQL.
\<close>

definition threeComponents :: dashboard_state where
  "threeComponents = emptyDashboard\<lparr>components :=
     [(''c1'', newComponent ''2025-01-01T00:00:00.000Z'' (tableParams ''c1'' ''header'')),
      (''c2'', newComponent ''2025-01-01T00:00:01.000Z''
                 ((tableParams ''c2'' ''sidebar'')\<lparr>dataConfig := JObj [(''source'', graphqlSource)]\<rparr>)),
      (''c3'', postgresComponent)]\<rparr>"

section \<open>Properties of path addressing\<close>

lemma cleanPath_a_b: "cleanPath ''$.a.b'' = ''a.b''"
  by code_simp

lemma pathParts_a_b: "pathParts ''a.b'' = [''a'', ''b'']"
  by code_simp

lemma parseInt_a: "parseInt ''a'' = None"
  by code_simp

lemma parseInt_b: "parseInt ''b'' = None"
  by code_simp

text \<open>
  Claim C10. \<^verbatim>\<open>navigateToPath\<close> is not total: when a segment resolves to a primitive
  that is neither \<^verbatim>\<open>null\<close> nor \<^verbatim>\<open>undefined\<close> and a further key is looked up in it, as in
  \<^verbatim>\<open>navigateToPath({a: 5}, "$.a.b")\<close>, the membership test throws a TypeError instead of
  answering \<open>exists = False\<close>; \<^verbatim>\<open>setValueAtPath\<close> on the same input throws the same error.
\<close>

theorem navigateToPath_throws_on_primitive:
  "navigateToPath (JObj [(''a'', JNum 5)]) ''$.a.b'' = Inl inOperatorError
   \<and> setValueAtPath (JObj [(''a'', JNum 5)]) ''$.a.b'' v = Inl inOperatorError"
  by (simp add: setValueAtPath_def jsonRoundTrip_def navigateToPath_def cleanPath_a_b
      pathParts_a_b parseInt_a parseInt_b)

section \<open>Properties of the layout and component tools\<close>

lemma extractGridAreas_scenario:
  "extractGridAreas [''header header'', ''sidebar main''] = [''header'', ''sidebar'', ''main'']"
  by code_simp

lemma orphanedComponents_Inr:
  "orphanedComponents as cs = Inr r \<Longrightarrow>
     r = filter (\<lambda>c. \<not> includesArea as (getProp c ''gridArea'')) cs"
  by (induction cs arbitrary: r) (auto simp: member_def split: sum.splits if_splits)

lemma orphanedComponents_total:
  "list_all (\<lambda>c. \<not> isNullish c) cs \<Longrightarrow>
     orphanedComponents as cs =
       Inr (filter (\<lambda>c. \<not> includesArea as (getProp c ''gridArea'')) cs)"
  by (induction cs) (auto simp: member_def)

lemma orphanedComponents_throws:
  "\<not> list_all (\<lambda>c. \<not> isNullish c) cs \<Longrightarrow>
     orphanedComponents as cs = Inl (nullReadError ''gridArea'')"
  by (induction cs) (auto simp: member_def)

text \<open>
  Claim C3, as amended. Whenever the normalized new layout leaves out the area of at
  least one stored component, \<^verbatim>\<open>set_grid_layout\<close> answers \<open>success = False\<close> and the state
  after the call is the state before it. The error names the orphaned components'
  areas and the new areas when the layout passes validation and no stored component is
  \<^verbatim>\<open>null\<close> or \<^verbatim>\<open>undefined\<close>; a layout that fails validation is rejected with the validation
  errors instead, and a \<^verbatim>\<open>null\<close> component makes the orphan check itself throw, which is
  reported with the message of the TypeError.
\<close>

theorem set_grid_layout_rejects_orphans:
  assumes "strandsComponent params st"
  shows "\<not> success (fst (set_grid_layout v params st))
       \<and> snd (set_grid_layout v params st) = st
       \<and> error (fst (set_grid_layout v params st)) =
           (if \<not> valid (v (params\<lparr>templateAreas := map normalizeArea (templateAreas params)\<rparr>))
            then Some (InvalidLayout
                   (errors (v (params\<lparr>templateAreas := map normalizeArea (templateAreas params)\<rparr>))))
            else if list_all (\<lambda>c. \<not> isNullish c) (map snd (components st))
            then Some (WouldOrphan (length (strandedComponents params st))
                         (map (\<lambda>c. getProp c ''gridArea'') (strandedComponents params st))
                         (extractGridAreas (map normalizeArea (templateAreas params))))
            else Some (Thrown ''Cannot read properties of null or undefined: gridArea''))"
proof -
  let ?as = "extractGridAreas (map normalizeArea (templateAreas params))"
  let ?cs = "map snd (components st)"
  let ?np = "params\<lparr>templateAreas := map normalizeArea (templateAreas params)\<rparr>"
  have ne: "strandedComponents params st \<noteq> []"
    using assms by (simp add: strandsComponent_def)
  show ?thesis
  proof (cases "list_all (\<lambda>c. \<not> isNullish c) ?cs")
    case False
    then have "orphanedComponents ?as ?cs = Inl (nullReadError ''gridArea'')"
      by (rule orphanedComponents_throws)
    then have
      "set_grid_layout v params st =
         (if \<not> valid (v ?np) then (fail (InvalidLayout (errors (v ?np))), st)
          else (fail (caught (nullReadError ''gridArea'')), st))"
      by (simp add: set_grid_layout_def Let_def del: filter_map)
    with False show ?thesis
      by (simp add: fail_def nullReadError_def typeError_def)
  next
    case True
    then have o: "orphanedComponents ?as ?cs = Inr (strandedComponents params st)"
      unfolding strandedComponents_def by (rule orphanedComponents_total)
    from ne have "0 < length (strandedComponents params st)"
      by simp
    with o have
      "set_grid_layout v params st =
         (if \<not> valid (v ?np) then (fail (InvalidLayout (errors (v ?np))), st)
          else (fail (WouldOrphan (length (strandedComponents params st))
                  (map (\<lambda>c. getProp c ''gridArea'') (strandedComponents params st)) ?as), st))"
      by (simp add: set_grid_layout_def Let_def del: filter_map)
    with True show ?thesis
      by (simp add: fail_def)
  qed
qed

theorem set_grid_layout_rejects_orphans_witness:
  "strandsComponent (scenarioGrid\<lparr>templateAreas := [''header header'', ''sidebar side'']\<rparr>)
     twoComponents
   \<and> \<not> success (fst (set_grid_layout validateGridLayoutSpec
          (scenarioGrid\<lparr>templateAreas := [''header header'', ''sidebar side'']\<rparr>) twoComponents))
   \<and> snd (set_grid_layout validateGridLayoutSpec
          (scenarioGrid\<lparr>templateAreas := [''header header'', ''sidebar side'']\<rparr>) twoComponents)
       = twoComponents
   \<and> error (fst (set_grid_layout validateGridLayoutSpec
          (scenarioGrid\<lparr>templateAreas := [''header header'', ''sidebar side'']\<rparr>) twoComponents))
       = Some (WouldOrphan 1 [JStr ''main''] [''header'', ''sidebar'', ''side''])"
proof -
  let ?L = "scenarioGrid\<lparr>templateAreas := [''header header'', ''sidebar side'']\<rparr>"
  have h: "strandsComponent ?L twoComponents"
    by code_simp
  have v: "valid (validateGridLayoutSpec (?L\<lparr>templateAreas := map normalizeArea (templateAreas ?L)\<rparr>))"
    by code_simp
  have n: "list_all (\<lambda>c. \<not> isNullish c) (map snd (components twoComponents))"
    by code_simp
  have s: "strandedComponents ?L twoComponents
             = [newComponent ''2025-01-01T00:00:00.000Z'' (tableParams ''c1'' ''main'')]"
    by code_simp
  have g: "getProp (newComponent ''2025-01-01T00:00:00.000Z'' (tableParams ''c1'' ''main''))
             ''gridArea'' = JStr ''main''"
    by code_simp
  have a: "extractGridAreas [normalizeArea ''header header'', normalizeArea ''sidebar side'']
             = [''header'', ''sidebar'', ''side'']"
    by code_simp
  show ?thesis
    using set_grid_layout_rejects_orphans [OF h, of validateGridLayoutSpec] h v n
    by (simp add: s g a)
qed

text \<open>
  The claim as first stated fails on a layout that strands a component and is invalid
  as well: an empty template is rejected with the validation errors, not with an error
  naming the orphaned component.
\<close>

theorem set_grid_layout_invalid_counterexample:
  "strandsComponent (scenarioGrid\<lparr>templateAreas := []\<rparr>) twoComponents
   \<and> \<not> namesOrphans (error (fst (set_grid_layout validateGridLayoutSpec
          (scenarioGrid\<lparr>templateAreas := []\<rparr>) twoComponents)))"
  by code_simp

text \<open>
  Normalization trims every kind of white space: a row that ends in a no-break space
  names the same areas, so the layout below strands no component and is accepted.
\<close>

lemma set_grid_layout_trims_no_break_space:
  "normalizeArea (''sidebar main'' @ [CHR 0xA0]) = ''sidebar main''
   \<and> \<not> strandsComponent
         (scenarioGrid\<lparr>templateAreas := [''header header'', ''sidebar main'' @ [CHR 0xA0]]\<rparr>)
         twoComponents
   \<and> success (fst (set_grid_layout validateGridLayoutSpec
         (scenarioGrid\<lparr>templateAreas := [''header header'', ''sidebar main'' @ [CHR 0xA0]]\<rparr>)
         twoComponents))"
  by code_simp

text \<open>
  Claim C7. On a dashboard whose grid has the rows \<^verbatim>\<open>"header header"\<close> and
  \<^verbatim>\<open>"sidebar main"\<close> and that holds no component yet: creating \<^verbatim>\<open>c1\<close> in \<^verbatim>\<open>main\<close>
  succeeds and stores the component with \<^verbatim>\<open>fetchStatus\<close> idle and \<^verbatim>\<open>createdAt\<close> set to the
  time of the call; creating \<^verbatim>\<open>c2\<close> in \<^verbatim>\<open>main\<close> then fails with the already-occupied
  error naming \<^verbatim>\<open>c1\<close> and leaves the state as it was; after \<^verbatim>\<open>c1\<close> is removed, creating
  \<^verbatim>\<open>c2\<close> in \<^verbatim>\<open>main\<close> succeeds.
\<close>

theorem create_remove_scenario:
  assumes g: "templateAreas (grid st) = [''header header'', ''sidebar main'']"
    and e: "components st = []"
    and p1: "cid p1 = ''c1''" "gridArea p1 = ''main''"
    and p2: "cid p2 = ''c2''" "gridArea p2 = ''main''"
  shows "success (fst (create_component t1 p1 st))
    \<and> componentOf (snd (create_component t1 p1 st)) ''c1'' = newComponent t1 p1
    \<and> getProp (getProp (newComponent t1 p1) ''metadata'') ''fetchStatus'' = JStr ''idle''
    \<and> getProp (getProp (newComponent t1 p1) ''metadata'') ''createdAt'' = JStr t1
    \<and> \<not> success (fst (create_component t2 p2 (snd (create_component t1 p1 st))))
    \<and> error (fst (create_component t2 p2 (snd (create_component t1 p1 st))))
         = Some (AreaOccupied ''main'' (JStr ''c1''))
    \<and> snd (create_component t2 p2 (snd (create_component t1 p1 st)))
         = snd (create_component t1 p1 st)
    \<and> success (fst (remove_component ''c1'' (snd (create_component t1 p1 st))))
    \<and> success (fst (create_component t3 p2
                      (snd (remove_component ''c1'' (snd (create_component t1 p1 st))))))
    \<and> components (snd (create_component t3 p2
                      (snd (remove_component ''c1'' (snd (create_component t1 p1 st))))))
         = [(''c2'', newComponent t3 p2)]"
proof -
  have s1: "create_component t1 p1 st =
      (ok (Created ''c1'' ''main'') None, st\<lparr>components := [(''c1'', newComponent t1 p1)]\<rparr>)"
    using g e p1
    by (simp add: create_component_def componentOf_def isValidGridArea_def
        extractGridAreas_scenario isGridAreaOccupied_def isGridAreaOccupiedIn_def)
  have nc: "getProp (newComponent t1 p1) ''gridArea'' = JStr ''main''"
      "getProp (newComponent t1 p1) ''id'' = JStr ''c1''"
      "truthy (newComponent t1 p1)" "\<not> isNullish (newComponent t1 p1)"
    using p1 by (simp_all add: newComponent_def)
  have s2: "create_component t2 p2 (st\<lparr>components := [(''c1'', newComponent t1 p1)]\<rparr>) =
      (fail (AreaOccupied ''main'' (JStr ''c1'')),
       st\<lparr>components := [(''c1'', newComponent t1 p1)]\<rparr>)"
    using g p2 nc
    by (simp add: create_component_def componentOf_def isValidGridArea_def
        extractGridAreas_scenario isGridAreaOccupied_def isGridAreaOccupiedIn_def member_def)
  have s3: "remove_component ''c1'' (st\<lparr>components := [(''c1'', newComponent t1 p1)]\<rparr>) =
      (ok (Removed ''c1'') None, st\<lparr>components := []\<rparr>)"
    using nc by (simp add: remove_component_def componentOf_def)
  have s4: "create_component t3 p2 (st\<lparr>components := []\<rparr>) =
      (ok (Created ''c2'' ''main'') None, st\<lparr>components := [(''c2'', newComponent t3 p2)]\<rparr>)"
    using g p2
    by (simp add: create_component_def componentOf_def isValidGridArea_def
        extractGridAreas_scenario isGridAreaOccupied_def isGridAreaOccupiedIn_def)
  have md: "getProp (getProp (newComponent t1 p1) ''metadata'') ''fetchStatus'' = JStr ''idle''"
     "getProp (getProp (newComponent t1 p1) ''metadata'') ''createdAt'' = JStr t1"
    by (simp_all add: newComponent_def)
  show ?thesis
    by (simp add: s1 s2 s3 s4 md ok_def fail_def componentOf_def)
qed

theorem create_remove_scenario_witness:
  "templateAreas (grid emptyDashboard) = [''header header'', ''sidebar main'']
   \<and> components emptyDashboard = []
   \<and> success (fst (create_component ''2025-01-01T00:00:00.000Z'' (tableParams ''c1'' ''main'')
                     emptyDashboard))
   \<and> error (fst (create_component ''2025-01-01T00:00:01.000Z'' (tableParams ''c2'' ''main'')
        (snd (create_component ''2025-01-01T00:00:00.000Z'' (tableParams ''c1'' ''main'')
                emptyDashboard))))
       = Some (AreaOccupied ''main'' (JStr ''c1''))"
  using create_remove_scenario [of emptyDashboard "tableParams ''c1'' ''main''"
      "tableParams ''c2'' ''main''" "''2025-01-01T00:00:00.000Z''" "''2025-01-01T00:00:01.000Z''"]
  by (simp add: emptyDashboard_def scenarioGrid_def tableParams_def)

lemma cleanPath_gridArea: "cleanPath ''$.gridArea'' = ''gridArea''"
  by code_simp

lemma pathParts_gridArea: "pathParts ''gridArea'' = [''gridArea'']"
  by code_simp

lemma parseInt_gridArea: "parseInt ''gridArea'' = None"
  by code_simp

text \<open>
  Claim C1 does not hold of \<^verbatim>\<open>update_component\<close>: the tool checks neither that a new
  \<^verbatim>\<open>gridArea\<close> exists nor that it is free, as \<^verbatim>\<open>create_component\<close> does. On a state that
  satisfies the invariants, with \<^verbatim>\<open>c1\<close> in \<^verbatim>\<open>main\<close> and \<^verbatim>\<open>c2\<close> in \<^verbatim>\<open>sidebar\<close>, moving \<^verbatim>\<open>c2\<close>
  to \<^verbatim>\<open>main\<close> succeeds both through the path \<^verbatim>\<open>$.gridArea\<close> and through a merge of
  \<^verbatim>\<open>{gridArea: "main"}\<close>, and leaves two components in \<^verbatim>\<open>main\<close>.
\<close>

theorem update_component_breaks_occupancy:
  "invariants twoComponents
   \<and> success (fst (update_component now ''c2'' (Some ''$.gridArea'') (JStr ''main'') twoComponents))
   \<and> areaCount ''main''
        (snd (update_component now ''c2'' (Some ''$.gridArea'') (JStr ''main'') twoComponents)) = 2
   \<and> success (fst (update_component now ''c2'' None (JObj [(''gridArea'', JStr ''main'')])
                     twoComponents))
   \<and> areaCount ''main''
        (snd (update_component now ''c2'' None (JObj [(''gridArea'', JStr ''main'')])
                twoComponents)) = 2"
proof -
  have i: "invariants twoComponents"
    by (simp add: invariants_def twoComponents_def emptyDashboard_def scenarioGrid_def
        areaCount_def newComponent_def tableParams_def isValidGridArea_def
        extractGridAreas_scenario)
  have p: "success (fst (update_component now ''c2'' (Some ''$.gridArea'') (JStr ''main'')
                           twoComponents))
    \<and> areaCount ''main''
        (snd (update_component now ''c2'' (Some ''$.gridArea'') (JStr ''main'') twoComponents)) = 2"
    by (simp add: update_component_def componentOf_def twoComponents_def emptyDashboard_def
        newComponent_def tableParams_def staticConfig_def setValueAtPath_def jsonRoundTrip_def
        navigateToPath_def cleanPath_gridArea pathParts_gridArea parseInt_gridArea ok_def
        areaCount_def)
  have m: "success (fst (update_component now ''c2'' None (JObj [(''gridArea'', JStr ''main'')])
                           twoComponents))
    \<and> areaCount ''main''
        (snd (update_component now ''c2'' None (JObj [(''gridArea'', JStr ''main'')])
                twoComponents)) = 2"
    by (simp add: update_component_def componentOf_def twoComponents_def emptyDashboard_def
        newComponent_def tableParams_def staticConfig_def mergedComponent_def objAssign_def
        ok_def areaCount_def)
  from i p m show ?thesis by blast
qed

section \<open>Path updates of a component\<close>























text \<open>
  On a component without \<^verbatim>\<open>metadata\<close> a path through \<^verbatim>\<open>metadata\<close> is not extended: the
  value is written to \<^verbatim>\<open>metadata\<close> itself, and with it an \<^verbatim>\<open>updatedAt\<close>.
\<close>

lemma update_component_lands_on_metadata:
  "updatedAtOf (componentOf bareState ''c1'') = JUndefined
   \<and> metadataOf (componentOf (snd (update_component ''2025-01-03T00:00:00.000Z'' ''c1''
          (Some ''$.metadata.fetchStatus'') (JObj [(''updatedAt'', JStr ''never'')]) bareState)) ''c1'')
       = JObj [(''updatedAt'', JStr ''never'')]"
  by code_simp

text \<open>
  A path through \<^verbatim>\<open>__proto__\<close> leaves the data: the program would go on into
  \<^verbatim>\<open>Object.prototype\<close>.
\<close>

lemma proto_path_not_plain:
  "\<not> plainUpdate (componentOf twoComponents ''c1'') ''$.__proto__.updatedAt''"
  by code_simp


section \<open>Properties of fetch_component_data\<close>

lemma of_char_digitChar: "d < 10 \<Longrightarrow> (of_char (digitChar d) :: nat) = 48 + d"
  by (simp add: digitChar_def)

lemma isDigit_digitChar: "d < 10 \<Longrightarrow> isDigit (digitChar d)"
  by (simp add: isDigit_def of_char_digitChar Let_def)

lemma showNatAux_digits:
  "list_all isDigit acc \<Longrightarrow> list_all isDigit (showNatAux fuel n acc)"
  by (induction fuel arbitrary: n acc) (auto simp: isDigit_digitChar)

lemma showNat_digits: "list_all isDigit (showNat n)"
  unfolding showNat_def by (rule showNatAux_digits) simp

lemma map_of_objAssign:
  "map_of (objAssign base props) k =
     (case map_of (rev props) k of Some v \<Rightarrow> Some v | None \<Rightarrow> map_of base k)"
  unfolding objAssign_def
  by (induction props arbitrary: base rule: rev_induct) (auto simp: update_conv' split: option.splits)

lemma spread_index_keys:
  "\<not> list_all isDigit k \<Longrightarrow> map_of (zip (map showNat [0..<n]) xs) k = None"
proof -
  assume k: "\<not> list_all isDigit k"
  have "k \<notin> set (map showNat [0..<n])"
    using k showNat_digits by auto
  then have "k \<notin> fst ` set (zip (map showNat [0..<n]) xs)"
    by (metis (no_types, lifting) imageE in_set_zipE prod.collapse)
  then show ?thesis by (simp add: map_of_eq_None_iff)
qed

lemma canonIndex_digits: "canonIndex k = Some i \<Longrightarrow> list_all isDigit k"
  by (simp add: canonIndex_def split: if_splits)

lemma getProp_spread:
  assumes "\<not> list_all isDigit k" "k \<noteq> ''length''"
  shows "getProp (JObj (spreadProps c)) k = getProp c k"
proof (cases c)
  case (JArr xs)
  with assms show ?thesis
    by (auto simp: spread_index_keys dest: canonIndex_digits split: option.splits)
next
  case (JStr s)
  with assms show ?thesis
    by (auto simp: spread_index_keys dest: canonIndex_digits split: option.splits)
qed simp_all

lemma data_not_digits: "\<not> list_all isDigit ''data''" by code_simp
lemma metadata_not_digits: "\<not> list_all isDigit ''metadata''" by code_simp

lemma getProp_spread_data: "getProp (JObj (spreadProps c)) ''data'' = getProp c ''data''"
  by (rule getProp_spread) (rule data_not_digits, simp)

lemma getProp_spread_metadata:
  "getProp (JObj (spreadProps c)) ''metadata'' = getProp c ''metadata''"
  by (rule getProp_spread) (rule metadata_not_digits, simp)

lemma getProp_withMetadata_data:
  "getProp (withMetadata c props) ''data'' = getProp c ''data''"
  using getProp_spread_data[of c]
  by (simp add: withMetadata_def map_of_objAssign)

lemma getProp_withMetadata_metadata:
  "getProp (withMetadata c props) ''metadata''
     = JObj (objAssign (spreadProps (getProp c ''metadata'')) props)"
  by (simp add: withMetadata_def map_of_objAssign)

lemma componentOf_setComponent:
  "componentOf (setComponent i c st) i = c"
  by (simp add: setComponent_def componentOf_def update_conv')

lemma setComponent_twice:
  "setComponent i c (setComponent i c' st) = setComponent i c st"
  by (simp add: setComponent_def)

lemma member_throws_Error: "member v k = Inl e \<Longrightarrow> \<exists>n m. e = JsError n m"
  by (auto simp: member_def nullReadError_def typeError_def split: if_splits)

lemma catchSoft_not_Inl: "catchSoft r \<noteq> Inl e"
  by (cases r) simp_all

lemma fetchFromSource_throws_Error:
  "fetchFromSource ev f src = (Inl e, f1) \<Longrightarrow> \<exists>n m. e = JsError n m"
  by (auto simp: fetchFromSource_def fetchFromPostgreSQL_def fetchFromGraphQL_def
      fetchFromStatic_def Let_def catchSoft_not_Inl softError_def
      dest: member_throws_Error split: sum.splits if_splits option.splits)

lemma fetchFresh_throws_Error:
  "fetchFresh ev clk f i cfg = (Inl e, f1) \<Longrightarrow> \<exists>n m. e = JsError n m"
  by (auto simp: fetchFresh_def applyHandlebarsTemplate_def applyAlaSQLTransform_def
      dest: fetchFromSource_throws_Error split: sum.splits if_splits prod.splits option.splits)

lemma fetchData_throws_Error:
  "fetchData ev clk f i cfg = (Inl e, f1) \<Longrightarrow> \<exists>n m. e = JsError n m"
  by (auto simp: fetchData_def dest: fetchFresh_throws_Error member_throws_Error
      split: sum.splits if_splits prod.splits option.splits)

text \<open>
  Claim C4. For every existing component, whenever the \<^verbatim>\<open>fetchData\<close> call made by
  \<^verbatim>\<open>fetch_component_data\<close> throws, the thrown value is an \<^verbatim>\<open>Error\<close> and the tool result
  is \<^verbatim>\<open>{success: false, error: message}\<close> with its message, the component's
  \<^verbatim>\<open>metadata.fetchStatus\<close> is \<^verbatim>\<open>error\<close> and \<^verbatim>\<open>metadata.error\<close> holds the same message, and
  the component's \<^verbatim>\<open>data\<close> is what it was before the call.
\<close>

theorem fetch_component_data_failure_keeps_data:
  assumes ex: "truthy (componentOf st ident)"
    and thr: "fetchData ev clk f ident (getProp (componentOf st ident) ''dataConfig'') = (Inl e, f1)"
  shows "\<exists>name msg. e = JsError name msg
    \<and> fst (fetch_component_data ev clk ident (st, f))
        = \<lparr>success = False, message = None, error = Some (Thrown msg), data = None\<rparr>
    \<and> fetchStatusOf (componentOf (fst (snd (fetch_component_data ev clk ident (st, f)))) ident)
        = JStr ''error''
    \<and> fetchErrorOf (componentOf (fst (snd (fetch_component_data ev clk ident (st, f)))) ident)
        = JStr msg
    \<and> getProp (componentOf (fst (snd (fetch_component_data ev clk ident (st, f)))) ident) ''data''
        = getProp (componentOf st ident) ''data''"
proof -
  from fetchData_throws_Error[OF thr] obtain name msg where e: "e = JsError name msg"
    by blast
  let ?c = "componentOf st ident"
  let ?l = "withMetadata ?c [(''fetchStatus'', JStr ''loading'')]"
  let ?e = "withMetadata ?l [(''fetchStatus'', JStr ''error''), (''error'', JStr msg)]"
  have r: "fetch_component_data ev clk ident (st, f) =
      (\<lparr>success = False, message = None, error = Some (Thrown msg), data = None\<rparr>,
       setComponent ident ?e (setComponent ident ?l st), f1)"
    using ex thr
    by (simp add: fetch_component_data_def Let_def componentOf_setComponent e fail_def)
  have d: "getProp ?e ''data'' = getProp ?c ''data''"
    by (simp add: getProp_withMetadata_data)
  have s: "fetchStatusOf ?e = JStr ''error''" "fetchErrorOf ?e = JStr msg"
    by (simp_all add: fetchStatusOf_def fetchErrorOf_def getProp_withMetadata_metadata map_of_objAssign)
  show ?thesis
    by (intro exI[of _ name] exI[of _ msg]) (simp add: r e componentOf_setComponent d s)
qed

theorem fetch_component_data_failure_keeps_data_witness:
  "truthy (componentOf templatedState ''c1'')
   \<and> fetchData brokenTemplateEnv exampleClock toolsFetcher ''c1''
        (getProp (componentOf templatedState ''c1'') ''dataConfig'')
       = (Inl (JsError ''Error'' ''Handlebars template failed: Error: Parse error on line 1''),
          toolsFetcher)
   \<and> fst (fetch_component_data brokenTemplateEnv exampleClock ''c1'' (templatedState, toolsFetcher))
       = \<lparr>success = False, message = None,
          error = Some (Thrown ''Handlebars template failed: Error: Parse error on line 1''),
          data = None\<rparr>
   \<and> fetchStatusOf (componentOf (fst (snd (fetch_component_data brokenTemplateEnv exampleClock
                        ''c1'' (templatedState, toolsFetcher)))) ''c1'') = JStr ''error''
   \<and> fetchErrorOf (componentOf (fst (snd (fetch_component_data brokenTemplateEnv exampleClock
                        ''c1'' (templatedState, toolsFetcher)))) ''c1'')
       = JStr ''Handlebars template failed: Error: Parse error on line 1''
   \<and> getProp (componentOf (fst (snd (fetch_component_data brokenTemplateEnv exampleClock
                        ''c1'' (templatedState, toolsFetcher)))) ''c1'') ''data''
       = JObj [(''rows'', JArr [JNum 7])]"
proof -
  have c: "componentOf templatedState ''c1'' =
      newComponent ''2025-01-01T00:00:00.000Z''
        ((tableParams ''c1'' ''main'')\<lparr>dataConfig := templatedConfig,
                                        cdata := JObj [(''rows'', JArr [JNum 7])]\<rparr>)"
    by (simp add: templatedState_def componentOf_def)
  have t: "truthy (componentOf templatedState ''c1'')"
    by (simp add: c newComponent_def)
  have cfg: "getProp (componentOf templatedState ''c1'') ''dataConfig'' = templatedConfig"
    by (simp add: c newComponent_def)
  have d: "getProp (componentOf templatedState ''c1'') ''data'' = JObj [(''rows'', JArr [JNum 7])]"
    by (simp add: c newComponent_def)
  have thr: "fetchData brokenTemplateEnv exampleClock toolsFetcher ''c1'' templatedConfig
       = (Inl (JsError ''Error'' ''Handlebars template failed: Error: Parse error on line 1''),
          toolsFetcher)"
    by (simp add: fetchData_def fetchFresh_def fetchFromSource_def fetchFromStatic_def member_def
        templatedConfig_def applyHandlebarsTemplate_def brokenTemplateEnv_def)
  show ?thesis
    using fetch_component_data_failure_keeps_data [OF t, of brokenTemplateEnv exampleClock
        toolsFetcher _ toolsFetcher] thr t
    by (simp add: cfg d)
qed

section \<open>Properties of the cache\<close>

text \<open>
  Claim C5, as amended. With caching enabled and an entry for the component whose data
  is not \<^verbatim>\<open>null\<close>, \<^verbatim>\<open>fetchData\<close> returns the stored data and leaves the fetcher untouched
  (no request is sent) exactly when the entry's age \<open>now - timestamp\<close> is at most the
  maximal age, which is the configured ttl, or 60000 ms when the ttl is absent or zero.
  Otherwise the entry is deleted and the call continues as a fresh fetch from the
  source. The witness below is the case ttl = 1000 ms: served from the cache after
  500 ms, fetched again (one request sent) after 1500 ms.
\<close>

theorem cache_hit_iff_fresh:
  assumes en: "truthy (getProp (getProp cfg ''cache'') ''enabled'')"
    and ttl: "getProp (getProp cfg ''cache'') ''ttl'' = ttlJson ttl"
    and entry: "cache f i = Some (d, ts)"
    and dn: "d \<noteq> JNull"
  shows "fetchData ev clk f i cfg =
           (if nowMs clk - ts \<le> maxAgeOf ttl then (Inr d, f)
            else fetchFresh ev clk (f\<lparr>cache := (cache f)(i := None)\<rparr>) i cfg)"
proof -
  from en have nn: "\<not> isNullish cfg"
    by (cases cfg) auto
  have g: "jsGreater a (if truthy (ttlJson ttl) then ttlJson ttl else JNum 60000)
             = (a > maxAgeOf ttl)" for a
    by (cases ttl) (auto simp: jsGreater_def)
  show ?thesis
    using en nn entry dn
    by (simp add: fetchData_def member_def getFromCache_def ttl g Let_def not_le)
qed

theorem cache_hit_iff_fresh_witness:
  "truthy (getProp (getProp (cachedPostgresConfig (Some 1000)) ''cache'') ''enabled'')
   \<and> cache (cachedFetcher (JArr [JNum 1]) 1000000) ''c1'' = Some (JArr [JNum 1], 1000000)
   \<and> fetchData respondingEnv (clockAt 1000500) (cachedFetcher (JArr [JNum 1]) 1000000) ''c1''
        (cachedPostgresConfig (Some 1000))
       = (Inr (JArr [JNum 1]), cachedFetcher (JArr [JNum 1]) 1000000)
   \<and> posted (snd (fetchData respondingEnv (clockAt 1000500)
                      (cachedFetcher (JArr [JNum 1]) 1000000) ''c1''
                      (cachedPostgresConfig (Some 1000)))) = []
   \<and> length (posted (snd (fetchData respondingEnv (clockAt 1001500)
                      (cachedFetcher (JArr [JNum 1]) 1000000) ''c1''
                      (cachedPostgresConfig (Some 1000))))) = 1"
proof -
  let ?cfg = "cachedPostgresConfig (Some 1000)"
  let ?f = "cachedFetcher (JArr [JNum 1]) 1000000"
  have en: "truthy (getProp (getProp ?cfg ''cache'') ''enabled'')"
    by (simp add: cachedPostgresConfig_def)
  have ttl: "getProp (getProp ?cfg ''cache'') ''ttl'' = ttlJson (Some 1000)"
    by (simp add: cachedPostgresConfig_def)
  have entry: "cache ?f ''c1'' = Some (JArr [JNum 1], 1000000)"
    by (simp add: cachedFetcher_def)
  have dn: "JArr [JNum 1] \<noteq> JNull" by simp
  have hit: "fetchData respondingEnv (clockAt 1000500) ?f ''c1'' ?cfg = (Inr (JArr [JNum 1]), ?f)"
    using cache_hit_iff_fresh [OF en ttl entry dn, of respondingEnv "clockAt 1000500"]
    by (simp add: clockAt_def)
  have miss: "fetchData respondingEnv (clockAt 1001500) ?f ''c1'' ?cfg =
      fetchFresh respondingEnv (clockAt 1001500) (?f\<lparr>cache := (cache ?f)(''c1'' := None)\<rparr>) ''c1'' ?cfg"
    using cache_hit_iff_fresh [OF en ttl entry dn, of respondingEnv "clockAt 1001500"]
    by (simp add: clockAt_def)
  have fresh: "length (posted (snd (fetchFresh respondingEnv (clockAt 1001500)
        (?f\<lparr>cache := (cache ?f)(''c1'' := None)\<rparr>) ''c1'' ?cfg))) = 1"
    by (simp add: fetchFresh_def fetchFromSource_def fetchFromPostgreSQL_def member_def
        cachedPostgresConfig_def cachedFetcher_def toolsFetcher_def respondingEnv_def setCache_def
        Let_def)
  have p: "posted ?f = []"
    by (simp add: cachedFetcher_def toolsFetcher_def)
  show ?thesis
    using en entry by (simp add: hit miss fresh p)
qed

text \<open>
  The claim as first stated fails for a ttl of zero: the entry is 500 ms old, which is
  more than the ttl, and is still served from the cache, because a zero ttl is replaced
  by the default.
\<close>

theorem cache_zero_ttl_counterexample:
  "getProp (getProp (cachedPostgresConfig (Some 0)) ''cache'') ''ttl'' = JNum 0
   \<and> \<not> (1000500 - 1000000 \<le> (0::int))
   \<and> fetchData respondingEnv (clockAt 1000500) (cachedFetcher (JArr [JNum 1]) 1000000) ''c1''
        (cachedPostgresConfig (Some 0))
       = (Inr (JArr [JNum 1]), cachedFetcher (JArr [JNum 1]) 1000000)"
  by (simp add: fetchData_def member_def getFromCache_def cachedPostgresConfig_def
      cachedFetcher_def jsGreater_def clockAt_def Let_def)

section \<open>Source errors and transform errors\<close>




lemma typed_not_nullish: "getProp src ''type'' = JStr t \<Longrightarrow> \<not> isNullish src"
  by (cases src) auto

lemma fetchFromSource_postgres:
  "getProp src ''type'' = JStr ''postgresql'' \<Longrightarrow>
     fetchFromSource ev f src = fetchFromPostgreSQL ev f src"
  by (frule typed_not_nullish) (simp add: fetchFromSource_def member_def)

lemma fetchFromSource_graphql:
  "getProp src ''type'' = JStr ''graphql'' \<Longrightarrow>
     fetchFromSource ev f src = fetchFromGraphQL ev f src"
  by (frule typed_not_nullish) (simp add: fetchFromSource_def member_def)

lemma fetchFromSource_static:
  "getProp src ''type'' = JStr ''static'' \<Longrightarrow>
     fetchFromSource ev f src = (Inr (getProp src ''data''), f)"
  by (frule typed_not_nullish) (simp add: fetchFromSource_def fetchFromStatic_def member_def)



lemma fetchData_lookup:
  "\<not> isNullish cfg \<Longrightarrow> cacheLookup clk f i cfg = (JNull, f') \<Longrightarrow>
     fetchData ev clk f i cfg = fetchFresh ev clk f' i cfg"
  by (auto simp: fetchData_def member_def cacheLookup_def split: if_splits prod.splits)



section \<open>Properties of refresh_all_components\<close>

lemma fetchFromSource_cong:
  "sameEndpoints f' f \<Longrightarrow> fst (fetchFromSource ev f' src) = fst (fetchFromSource ev f src)"
  by (auto simp: sameEndpoints_def fetchFromSource_def fetchFromPostgreSQL_def fetchFromGraphQL_def
      Let_def split: sum.splits option.splits)

lemma fetchFromSource_same:
  "sameEndpoints (snd (fetchFromSource ev f src)) f"
  by (auto simp: sameEndpoints_def fetchFromSource_def fetchFromPostgreSQL_def fetchFromGraphQL_def
      Let_def split: sum.splits option.splits)

lemma fetchFromSource_cache:
  "cache (snd (fetchFromSource ev f src)) = cache f"
  by (auto simp: fetchFromSource_def fetchFromPostgreSQL_def fetchFromGraphQL_def
      Let_def split: sum.splits option.splits)

lemma fetchFresh_cong:
  assumes "sameEndpoints f' f"
  shows "fst (fetchFresh ev clk f' i cfg) = fst (fetchFresh ev clk f i cfg)"
proof -
  obtain r f1 where a: "fetchFromSource ev f (getProp cfg ''source'') = (r, f1)"
    by (cases "fetchFromSource ev f (getProp cfg ''source'')")
  obtain r' f1' where b: "fetchFromSource ev f' (getProp cfg ''source'') = (r', f1')"
    by (cases "fetchFromSource ev f' (getProp cfg ''source'')")
  from fetchFromSource_cong[OF assms, of ev "getProp cfg ''source''"] a b have "r' = r" by simp
  with a b show ?thesis
    by (simp add: fetchFresh_def split: sum.splits)
qed

lemma fetchFresh_frame:
  "sameEndpoints (snd (fetchFresh ev clk f i cfg)) f
   \<and> (\<forall>j. j \<noteq> i \<longrightarrow> cache (snd (fetchFresh ev clk f i cfg)) j = cache f j)"
proof -
  obtain r f1 where a: "fetchFromSource ev f (getProp cfg ''source'') = (r, f1)"
    by (cases "fetchFromSource ev f (getProp cfg ''source'')")
  from fetchFromSource_same[of ev f "getProp cfg ''source''"]
    fetchFromSource_cache[of ev f "getProp cfg ''source''"] a
  have "sameEndpoints f1 f" "cache f1 = cache f" by simp_all
  with a show ?thesis
    by (auto simp: fetchFresh_def setCache_def sameEndpoints_def split: sum.splits)
qed

lemma getFromCache_frame:
  "sameEndpoints (snd (getFromCache now f i ttl)) f
   \<and> (\<forall>j. j \<noteq> i \<longrightarrow> cache (snd (getFromCache now f i ttl)) j = cache f j)"
  by (auto simp: getFromCache_def sameEndpoints_def Let_def split: option.splits)

lemma getFromCache_cong:
  "cache f' i = cache f i \<Longrightarrow> fst (getFromCache now f' i ttl) = fst (getFromCache now f i ttl)"
  by (auto simp: getFromCache_def Let_def split: option.splits)

lemma sameEndpoints_trans: "sameEndpoints a b \<Longrightarrow> sameEndpoints b c \<Longrightarrow> sameEndpoints a c"
  by (simp add: sameEndpoints_def)

lemma fetchData_cong:
  assumes c: "cache f' i = cache f i" and s: "sameEndpoints f' f"
  shows "fst (fetchData ev clk f' i cfg) = fst (fetchData ev clk f i cfg)"
proof -
  let ?ttl = "getProp (getProp cfg ''cache'') ''ttl''"
  obtain v f1 where a: "getFromCache (nowMs clk) f i ?ttl = (v, f1)"
    by (cases "getFromCache (nowMs clk) f i ?ttl")
  obtain v' f1' where b: "getFromCache (nowMs clk) f' i ?ttl = (v', f1')"
    by (cases "getFromCache (nowMs clk) f' i ?ttl")
  from getFromCache_cong[OF c, of "nowMs clk" ?ttl] a b have v: "v' = v" by simp
  from getFromCache_frame[of "nowMs clk" f i ?ttl] a have 1: "sameEndpoints f1 f" by simp
  from getFromCache_frame[of "nowMs clk" f' i ?ttl] b have 2: "sameEndpoints f1' f'" by simp
  from 1 2 s have 3: "sameEndpoints f1' f1"
    by (simp add: sameEndpoints_def)
  show ?thesis
    using a b v fetchFresh_cong[OF 3, of ev clk i cfg] fetchFresh_cong[OF s, of ev clk i cfg]
    by (cases "isNullish cfg") (simp_all add: fetchData_def member_def)
qed

lemma fetchData_frame:
  "sameEndpoints (snd (fetchData ev clk f i cfg)) f
   \<and> (\<forall>j. j \<noteq> i \<longrightarrow> cache (snd (fetchData ev clk f i cfg)) j = cache f j)"
proof -
  let ?ttl = "getProp (getProp cfg ''cache'') ''ttl''"
  obtain v f1 where a: "getFromCache (nowMs clk) f i ?ttl = (v, f1)"
    by (cases "getFromCache (nowMs clk) f i ?ttl")
  from getFromCache_frame[of "nowMs clk" f i ?ttl] a
  have 1: "sameEndpoints f1 f" "\<forall>j. j \<noteq> i \<longrightarrow> cache f1 j = cache f j" by simp_all
  from fetchFresh_frame[of ev clk f1 i cfg] 1
  have 2: "sameEndpoints (snd (fetchFresh ev clk f1 i cfg)) f"
      "\<forall>j. j \<noteq> i \<longrightarrow> cache (snd (fetchFresh ev clk f1 i cfg)) j = cache f j"
    by (auto simp: sameEndpoints_def)
  have 0: "sameEndpoints f f" by (simp add: sameEndpoints_def)
  show ?thesis
    using a 0 1 2 fetchFresh_frame[of ev clk f i cfg]
    by (cases "isNullish cfg") (simp_all add: fetchData_def member_def)
qed

lemma startFetches_independent:
  "distinct ids \<Longrightarrow> \<forall>j\<in>set ids. cache fk j = cache f j \<Longrightarrow> sameEndpoints fk f \<Longrightarrow>
   startFetches ev clk st ids fk = (Inr rs, f') \<Longrightarrow>
     rs = map (\<lambda>i. fst (fetchData ev clk f i (getProp (componentOf st i) ''dataConfig''))) ids"
proof (induction ids arbitrary: fk rs)
  case Nil
  then show ?case by simp
next
  case (Cons i ids)
  from Cons.prems(4) obtain cfg where m: "member (componentOf st i) ''dataConfig'' = Inr cfg"
    by (auto split: sum.splits)
  then have cfg: "cfg = getProp (componentOf st i) ''dataConfig''"
    by (auto simp: member_def split: if_splits)
  obtain r f1 where fd: "fetchData ev clk fk i cfg = (r, f1)"
    by (cases "fetchData ev clk fk i cfg")
  with Cons.prems(4) m obtain rs' where
    rest: "startFetches ev clk st ids f1 = (Inr rs', f')" and rs: "rs = r # rs'"
    by (auto split: sum.splits prod.splits)
  from fetchData_frame[of ev clk fk i cfg] fd
  have fr: "sameEndpoints f1 fk" "\<forall>j. j \<noteq> i \<longrightarrow> cache f1 j = cache fk j" by simp_all
  from Cons.prems(1) have di: "distinct ids" "i \<notin> set ids" by simp_all
  have c1: "\<forall>j\<in>set ids. cache f1 j = cache f j"
    using fr(2) di(2) Cons.prems(2) by auto
  have s1: "sameEndpoints f1 f"
    using fr(1) Cons.prems(3) by (rule sameEndpoints_trans)
  from Cons.IH[OF di(1) c1 s1 rest]
  have "rs' = map (\<lambda>i. fst (fetchData ev clk f i (getProp (componentOf st i) ''dataConfig''))) ids" .
  moreover from fetchData_cong[of fk i f ev clk cfg] Cons.prems(2,3) fd
  have "r = fst (fetchData ev clk f i cfg)" by simp
  ultimately show ?case
    by (simp add: rs cfg)
qed

lemma startFetches_total:
  "list_all (\<lambda>i. \<not> isNullish (componentOf st i)) ids \<Longrightarrow>
     \<exists>rs f'. startFetches ev clk st ids f = (Inr rs, f')"
proof (induction ids arbitrary: f)
  case Nil
  then show ?case by simp
next
  case (Cons i ids)
  then have n: "\<not> isNullish (componentOf st i)" by simp
  obtain r f1 where fd: "fetchData ev clk f i (getProp (componentOf st i) ''dataConfig'') = (r, f1)"
    by (cases "fetchData ev clk f i (getProp (componentOf st i) ''dataConfig'')")
  from Cons obtain rs f' where "startFetches ev clk st ids f1 = (Inr rs, f')"
    by fastforce
  with n fd show ?case
    by (simp add: member_def)
qed

lemma applyResults_other:
  "i \<notin> set (map fst zs) \<Longrightarrow> map_of (applyResults clk zs comps) i = map_of comps i"
  by (induction zs arbitrary: comps) (auto simp: update_conv')

lemma applyResults_settled:
  "distinct (map fst zs) \<Longrightarrow> (i, r) \<in> set zs \<Longrightarrow>
     map_of (applyResults clk zs comps) i = Some (settle clk (getProp (JObj comps) i) r)"
proof (induction zs arbitrary: comps)
  case Nil
  then show ?case by simp
next
  case (Cons z zs)
  obtain j r' where z: "z = (j, r')" by (cases z)
  show ?case
  proof (cases "(i, r) = z")
    case True
    with Cons.prems z have "i \<notin> set (map fst zs)" by auto
    with True z show ?thesis
      by (simp add: applyResults_other update_conv')
  next
    case False
    with Cons.prems z have in_rest: "(i, r) \<in> set zs" and ne: "i \<noteq> j"
      by (auto simp: image_iff)
    from Cons.prems have "distinct (map fst zs)" by simp
    from Cons.IH[OF this in_rest] ne z show ?thesis
      by (simp add: update_conv')
  qed
qed

lemma settle_success:
  "fetchStatusOf (settle clk c (Inr v)) = JStr ''success''" "dataOf (settle clk c (Inr v)) = v"
  by (simp_all add: fetchStatusOf_def dataOf_def withData_def map_of_objAssign)

lemma componentOf_distinct:
  "distinct (map fst (components st)) \<Longrightarrow> (i, c) \<in> set (components st) \<Longrightarrow> componentOf st i = c"
  by (simp add: componentOf_def)

lemma cacheLookup_same: "sameEndpoints (snd (cacheLookup clk f i cfg)) f"
  using getFromCache_frame[of "nowMs clk" f i "getProp (getProp cfg ''cache'') ''ttl''"]
  by (simp add: cacheLookup_def sameEndpoints_def)

lemma unreachable_soft:
  assumes ty: "getProp src ''type'' = JStr ''postgresql'' \<or> getProp src ''type'' = JStr ''graphql''"
    and ep: "truthy (endpointOf f src)"
    and av: "fetchAvailable ev"
    and down: "\<And>b. httpPost ev (endpointOf f src) b = Rejected e"
    and same: "sameEndpoints f' f"
  shows "fst (fetchFromSource ev f' src) = Inr (JObj [(''error'', JStr (errMessage e))])"
proof -
  from ty have n: "\<not> isNullish src" by (cases src) auto
  have "fst (fetchFromSource ev f src) = Inr (JObj [(''error'', JStr (errMessage e))])"
    using ty
  proof
    assume t: "getProp src ''type'' = JStr ''postgresql''"
    with ep obtain s where s: "mcpPostgresEndpoint f = Some s" "s \<noteq> []"
      by (auto simp: endpointOf_def split: option.splits)
    with t have "endpointOf f src = JStr s" by (simp add: endpointOf_def)
    with down have "\<And>b. httpPost ev (JStr s) b = Rejected e" by simp
    with s av n show ?thesis
      by (simp add: fetchFromSource_postgres[OF t] fetchFromPostgreSQL_def member_def Let_def
          softError_def)
  next
    assume t: "getProp src ''type'' = JStr ''graphql''"
    let ?ep = "if truthy (getProp src ''endpoint'') then getProp src ''endpoint''
               else case defaultGraphqlEndpoint f of Some s \<Rightarrow> JStr s | None \<Rightarrow> JUndefined"
    from t have e: "endpointOf f src = ?ep" by (simp add: endpointOf_def)
    with ep have tr: "truthy ?ep" by simp
    from down e have "\<And>b. httpPost ev ?ep b = Rejected e" by simp
    with tr av n show ?thesis
      by (simp add: fetchFromSource_graphql[OF t] fetchFromGraphQL_def member_def Let_def
          softError_def)
  qed
  with fetchFromSource_cong[OF same, of ev src] show ?thesis by simp
qed

lemma fetchData_unreachable:
  assumes ty: "getProp (getProp cfg ''source'') ''type'' = JStr ''postgresql''
             \<or> getProp (getProp cfg ''source'') ''type'' = JStr ''graphql''"
    and nt: "\<not> truthy (getProp cfg ''handlebarsTemplate'')" "\<not> truthy (getProp cfg ''alasqlTransform'')"
    and miss: "fst (cacheLookup clk f i cfg) = JNull"
    and ep: "truthy (endpointOf f (getProp cfg ''source''))"
    and av: "fetchAvailable ev"
    and down: "\<And>b. httpPost ev (endpointOf f (getProp cfg ''source'')) b = Rejected e"
  shows "fst (fetchData ev clk f i cfg) = Inr (JObj [(''error'', JStr (errMessage e))])"
proof -
  from ty have n: "\<not> isNullish cfg" by (cases cfg) auto
  let ?f0 = "snd (cacheLookup clk f i cfg)"
  from miss have l: "cacheLookup clk f i cfg = (JNull, ?f0)"
    by (cases "cacheLookup clk f i cfg") simp
  obtain r f1 where s: "fetchFromSource ev ?f0 (getProp cfg ''source'') = (r, f1)"
    by (cases "fetchFromSource ev ?f0 (getProp cfg ''source'')")
  with unreachable_soft[OF ty ep av down cacheLookup_same, of clk i cfg]
  have "r = Inr (JObj [(''error'', JStr (errMessage e))])" by simp
  with s nt show ?thesis
    by (simp add: fetchData_lookup[OF n l] fetchFresh_def)
qed

lemma in_zip_map: "i \<in> set xs \<Longrightarrow> (i, g i) \<in> set (zip xs (map g xs))"
  by (induction xs) auto

lemma settle_error:
  "fetchStatusOf (settle clk c (Inl r)) = JStr ''error''"
  "dataOf (settle clk c (Inl r)) = dataOf c"
  "fetchErrorOf (settle clk c (Inl r)) = reasonMessage r"
  by (simp_all add: fetchStatusOf_def fetchErrorOf_def dataOf_def getProp_withMetadata_metadata
      getProp_withMetadata_data map_of_objAssign)

text \<open>
  Claim C2, as amended. On a dashboard whose components have distinct ids and none of
  which is \<^verbatim>\<open>null\<close>, \<^verbatim>\<open>refresh_all_components\<close> answers \<^verbatim>\<open>success: true\<close> with
  \<^verbatim>\<open>refreshedCount\<close> equal to the number of components. Every component ends with
  \<^verbatim>\<open>fetchStatus\<close> success and the fetched value as its \<^verbatim>\<open>data\<close> when its \<^verbatim>\<open>fetchData\<close>
  resolves, and with \<^verbatim>\<open>fetchStatus\<close> error, its \<^verbatim>\<open>data\<close> kept and the message of the
  \<^verbatim>\<open>Error\<close> as \<^verbatim>\<open>metadata.error\<close> when its \<^verbatim>\<open>fetchData\<close> throws. An unreachable endpoint
  does not make \<^verbatim>\<open>fetchData\<close> throw: a component with a PostgreSQL or GraphQL source
  whose request is rejected, with no transform configured and not served from the
  cache, ends with \<^verbatim>\<open>fetchStatus\<close> success and the object \<^verbatim>\<open>{error: message}\<close> as its
  \<^verbatim>\<open>data\<close>, the message being that of the rejection. The witness below is the scenario
  with three components, one of them with an unreachable endpoint.
\<close>

theorem refresh_all_soft_errors_succeed:
  assumes d: "distinct (map fst (components st))"
    and nn: "list_all (\<lambda>c. \<not> isNullish c) (map snd (components st))"
    and u: "(u, cu) \<in> set (components st)"
    and ty: "getProp (getProp (getProp cu ''dataConfig'') ''source'') ''type'' = JStr ''postgresql''
           \<or> getProp (getProp (getProp cu ''dataConfig'') ''source'') ''type'' = JStr ''graphql''"
    and nt: "\<not> truthy (getProp (getProp cu ''dataConfig'') ''handlebarsTemplate'')"
            "\<not> truthy (getProp (getProp cu ''dataConfig'') ''alasqlTransform'')"
    and miss: "fst (cacheLookup clk f u (getProp cu ''dataConfig'')) = JNull"
    and ep: "truthy (endpointOf f (getProp (getProp cu ''dataConfig'') ''source''))"
    and av: "fetchAvailable ev"
    and down: "\<And>b. httpPost ev (endpointOf f (getProp (getProp cu ''dataConfig'') ''source'')) b
                 = Rejected e"
  shows "fst (refresh_all_components ev clk (st, f))
        = \<lparr>success = True, message = Some (Refreshed (length (components st))), error = None,
           data = Some (JObj [(''refreshedCount'', JNum (int (length (components st))))])\<rparr>
    \<and> list_all
        (\<lambda>i. case fst (fetchData ev clk f i (getProp (componentOf st i) ''dataConfig'')) of
                Inr v \<Rightarrow>
                  fetchStatusOf (componentOf (fst (snd (refresh_all_components ev clk (st, f)))) i)
                    = JStr ''success''
                  \<and> dataOf (componentOf (fst (snd (refresh_all_components ev clk (st, f)))) i) = v
              | Inl r \<Rightarrow>
                  fetchStatusOf (componentOf (fst (snd (refresh_all_components ev clk (st, f)))) i)
                    = JStr ''error''
                  \<and> dataOf (componentOf (fst (snd (refresh_all_components ev clk (st, f)))) i)
                    = dataOf (componentOf st i)
                  \<and> (\<exists>n m. r = JsError n m
                       \<and> fetchErrorOf (componentOf (fst (snd (refresh_all_components ev clk (st, f)))) i)
                         = JStr (if m = [] then ''Unknown error'' else m)))
        (map fst (components st))
    \<and> fetchStatusOf (componentOf (fst (snd (refresh_all_components ev clk (st, f)))) u)
        = JStr ''success''
    \<and> dataOf (componentOf (fst (snd (refresh_all_components ev clk (st, f)))) u)
        = JObj [(''error'', JStr (case e of JsError n m \<Rightarrow> m | NonError v \<Rightarrow> ''Unknown error''))]"
proof -
  let ?ids = "map fst (components st)"
  let ?cfg = "\<lambda>i. getProp (componentOf st i) ''dataConfig''"
  let ?res = "\<lambda>i. fst (fetchData ev clk f i (?cfg i))"
  have em: "errMessage e = (case e of JsError n m \<Rightarrow> m | NonError v \<Rightarrow> ''Unknown error'')"
    by (cases e) simp_all
  have nonnull: "\<not> isNullish (componentOf st i)" if "i \<in> set ?ids" for i
  proof -
    from that obtain c where c: "(i, c) \<in> set (components st)" by auto
    with nn have "\<not> isNullish c"
      by (auto simp: list_all_iff)
    with componentOf_distinct[OF d c] show ?thesis by simp
  qed
  then have "list_all (\<lambda>i. \<not> isNullish (componentOf st i)) ?ids"
    by (simp add: list_all_iff)
  from startFetches_total[OF this] obtain rs f' where
    sf: "startFetches ev clk st ?ids f = (Inr rs, f')"
    by blast
  have same: "sameEndpoints f f" by (simp add: sameEndpoints_def)
  from startFetches_independent[OF d _ same sf] have rs: "rs = map ?res ?ids"
    by simp
  let ?comps' = "applyResults clk (zip ?ids rs) (components st)"
  let ?st' = "st\<lparr>components := ?comps'\<rparr>"
  have R: "refresh_all_components ev clk (st, f) =
      (ok (Refreshed (length ?ids)) (Some (JObj [(''refreshedCount'', JNum (int (length ?ids)))])),
       ?st', f')"
    using sf by (simp add: refresh_all_components_def Let_def)
  have dz: "distinct (map fst (zip ?ids rs))"
    using d rs by simp
  have settled: "componentOf ?st' i = settle clk (componentOf st i) (?res i)"
    if "i \<in> set ?ids" for i
  proof -
    from in_zip_map[OF that, of ?res] rs have z: "(i, ?res i) \<in> set (zip ?ids rs)"
      by simp
    from applyResults_settled[OF dz z, of clk "components st"] show ?thesis
      by (simp add: componentOf_def)
  qed
  have each: "case ?res i of
                Inr v \<Rightarrow> fetchStatusOf (componentOf ?st' i) = JStr ''success''
                        \<and> dataOf (componentOf ?st' i) = v
              | Inl r \<Rightarrow> fetchStatusOf (componentOf ?st' i) = JStr ''error''
                        \<and> dataOf (componentOf ?st' i) = dataOf (componentOf st i)
                        \<and> (\<exists>n m. r = JsError n m
                             \<and> fetchErrorOf (componentOf ?st' i)
                               = JStr (if m = [] then ''Unknown error'' else m))"
    if "i \<in> set ?ids" for i
  proof (cases "?res i")
    case (Inl r)
    then obtain f1 where "fetchData ev clk f i (?cfg i) = (Inl r, f1)"
      by (cases "fetchData ev clk f i (?cfg i)") simp
    from fetchData_throws_Error[OF this] obtain n m where r: "r = JsError n m"
      by blast
    have "reasonMessage r = JStr (if m = [] then ''Unknown error'' else m)"
      by (simp add: r)
    with Inl r settled[OF that] show ?thesis
      by (simp only: settle_error sum.case) simp
  next
    case (Inr v)
    with settled[OF that] show ?thesis
      by (simp only: settle_success sum.case)
  qed
  from u have uin: "u \<in> set ?ids" by force
  note cu = componentOf_distinct[OF d u]
  have ru: "?res u = Inr (JObj [(''error'', JStr (errMessage e))])"
    using fetchData_unreachable[OF ty nt miss ep av down] cu by simp
  with settled[OF uin] have
    us: "fetchStatusOf (componentOf ?st' u) = JStr ''success''"
      "dataOf (componentOf ?st' u) = JObj [(''error'', JStr (errMessage e))]"
    by (simp_all only: settle_success)
  have S: "fst (snd (refresh_all_components ev clk (st, f))) = ?st'"
    by (simp add: R)
  have F: "fst (refresh_all_components ev clk (st, f))
      = \<lparr>success = True, message = Some (Refreshed (length (components st))), error = None,
         data = Some (JObj [(''refreshedCount'', JNum (int (length (components st))))])\<rparr>"
    by (simp add: R ok_def)
  have all: "list_all
        (\<lambda>i. case ?res i of
                Inr v \<Rightarrow> fetchStatusOf (componentOf ?st' i) = JStr ''success''
                        \<and> dataOf (componentOf ?st' i) = v
              | Inl r \<Rightarrow> fetchStatusOf (componentOf ?st' i) = JStr ''error''
                        \<and> dataOf (componentOf ?st' i) = dataOf (componentOf st i)
                        \<and> (\<exists>n m. r = JsError n m
                             \<and> fetchErrorOf (componentOf ?st' i)
                               = JStr (if m = [] then ''Unknown error'' else m)))
        ?ids"
    unfolding list_all_iff using each by blast
  show ?thesis
    unfolding S using F all us by (simp only: em)
qed

theorem refresh_all_soft_errors_succeed_witness:
  "distinct (map fst (components threeComponents))
   \<and> list_all (\<lambda>c. \<not> isNullish c) (map snd (components threeComponents))
   \<and> fst (refresh_all_components postgresDownEnv exampleClock (threeComponents, toolsFetcher))
       = \<lparr>success = True, message = Some (Refreshed 3), error = None,
          data = Some (JObj [(''refreshedCount'', JNum 3)])\<rparr>
   \<and> list_all (\<lambda>i. fetchStatusOf (componentOf (fst (snd (refresh_all_components postgresDownEnv
                        exampleClock (threeComponents, toolsFetcher)))) i) = JStr ''success'')
        [''c1'', ''c2'', ''c3'']
   \<and> dataOf (componentOf (fst (snd (refresh_all_components postgresDownEnv exampleClock
                        (threeComponents, toolsFetcher)))) ''c3'')
       = JObj [(''error'', JStr ''Failed to fetch'')]"
proof -
  let ?cfg = "getProp postgresComponent ''dataConfig''"
  have ids: "map fst (components threeComponents) = [''c1'', ''c2'', ''c3'']"
    by (simp add: threeComponents_def)
  have d: "distinct (map fst (components threeComponents))"
    by (simp add: ids)
  have nn: "list_all (\<lambda>c. \<not> isNullish c) (map snd (components threeComponents))"
    by code_simp
  have u: "(''c3'', postgresComponent) \<in> set (components threeComponents)"
    by (simp add: threeComponents_def)
  have cfg: "?cfg = JObj [(''source'', postgresSource)]"
    by (simp add: postgresComponent_def newComponent_def)
  have ty: "getProp (getProp ?cfg ''source'') ''type'' = JStr ''postgresql''
          \<or> getProp (getProp ?cfg ''source'') ''type'' = JStr ''graphql''"
    by (simp add: cfg postgresSource_def)
  have nt: "\<not> truthy (getProp ?cfg ''handlebarsTemplate'')" "\<not> truthy (getProp ?cfg ''alasqlTransform'')"
    by (simp_all add: cfg)
  have miss: "fst (cacheLookup exampleClock toolsFetcher ''c3'' ?cfg) = JNull"
    by (simp add: cfg cacheLookup_def)
  have e: "endpointOf toolsFetcher (getProp ?cfg ''source'') = JStr ''/api/mcp/postgres''"
    by (simp add: cfg endpointOf_def postgresSource_def toolsFetcher_def)
  have ep: "truthy (endpointOf toolsFetcher (getProp ?cfg ''source''))"
    by (simp add: e)
  have av: "fetchAvailable postgresDownEnv"
    by (simp add: postgresDownEnv_def)
  have down: "\<And>b. httpPost postgresDownEnv (endpointOf toolsFetcher (getProp ?cfg ''source'')) b
      = Rejected (JsError ''TypeError'' ''Failed to fetch'')"
    by (simp add: e postgresDownEnv_def)
  have l: "length (components threeComponents) = 3"
    by (simp add: threeComponents_def)
  have c1: "\<exists>v. fst (fetchData postgresDownEnv exampleClock toolsFetcher ''c1''
              (getProp (componentOf threeComponents ''c1'') ''dataConfig'')) = Inr v"
    by (simp add: threeComponents_def emptyDashboard_def componentOf_def newComponent_def
        tableParams_def staticConfig_def fetchData_def fetchFresh_def fetchFromSource_def
        fetchFromStatic_def member_def)
  have c2: "\<exists>v. fst (fetchData postgresDownEnv exampleClock toolsFetcher ''c2''
              (getProp (componentOf threeComponents ''c2'') ''dataConfig'')) = Inr v"
    by (simp add: threeComponents_def emptyDashboard_def componentOf_def newComponent_def
        tableParams_def graphqlSource_def fetchData_def fetchFresh_def fetchFromSource_def
        fetchFromGraphQL_def member_def toolsFetcher_def postgresDownEnv_def Let_def)
  show ?thesis
    using refresh_all_soft_errors_succeed [OF d nn u ty nt miss ep av down] d nn c1 c2
    by (auto simp: ids l)
qed

text \<open>
  The claim as first stated expects one component with \<^verbatim>\<open>fetchStatus\<close> error. With three
  components and the PostgreSQL endpoint unreachable, no component has status error
  and all three have status success.
\<close>

theorem refresh_all_unreachable_counterexample:
  "statusCount ''error'' (fst (snd (refresh_all_components postgresDownEnv exampleClock
                                     (threeComponents, toolsFetcher)))) = 0
   \<and> statusCount ''success'' (fst (snd (refresh_all_components postgresDownEnv exampleClock
                                     (threeComponents, toolsFetcher)))) = 3"
  by code_simp

section \<open>Path updates never touch their argument\<close>
























text \<open>
  The depth bound of \<open>stringifyH\<close> is never the reason for a failure: the stack holds
  distinct cells of the heap, so it cannot grow beyond the number of cells.
\<close>

lemma serialize_fuel:
  "distinct stk \<Longrightarrow> set stk \<subseteq> {..<length h} \<Longrightarrow> length h < n + length stk \<Longrightarrow>
     serialize n stk h v \<noteq> Inl OutOfFuel"
  "distinct stk \<Longrightarrow> set stk \<subseteq> {..<length h} \<Longrightarrow> length h < n + length stk \<Longrightarrow>
     serializeList n stk h vs \<noteq> Inl OutOfFuel"
  "distinct stk \<Longrightarrow> set stk \<subseteq> {..<length h} \<Longrightarrow> length h < n + length stk \<Longrightarrow>
     serializeProps n stk h kvs \<noteq> Inl OutOfFuel"
proof (induction n stk h v and n stk h vs and n stk h kvs
    rule: serialize_serializeList_serializeProps.induct)
  case (6 stk h a)
  have "length stk = card (set stk)"
    using 6(1) by (simp add: distinct_card)
  also have "\<dots> \<le> card {..<length h}"
    using 6(2) by (intro card_mono) auto
  finally show ?case
    using 6(3) by simp
next
  case (7 n stk h a)
  show ?case
  proof (cases "a \<in> set stk")
    case True
    then show ?thesis by simp
  next
    case False
    show ?thesis
    proof (cases "cell h a")
      case None
      with False show ?thesis by simp
    next
      case (Some c)
      then have lt: "a < length h"
        by (simp add: cell_def split: if_splits)
      have d: "distinct (a # stk)" "set (a # stk) \<subseteq> {..<length h}"
          "length h < n + length (a # stk)"
        using False lt 7(3,4,5) by auto
      show ?thesis
      proof (cases c)
        case (HArr vs)
        with 7(1)[OF False Some HArr d] False Some show ?thesis
          by (auto split: sum.splits)
      next
        case (HObj kvs)
        with 7(2)[OF False Some HObj d] False Some show ?thesis
          by (auto split: sum.splits)
      qed
    qed
  qed
next
  case (9 n stk h v vs)
  then show ?case by (auto split: sum.splits)
next
  case (11 n stk h kv kvs)
  then show ?case by (auto split: sum.splits)
qed auto

lemma stringifyH_fuel: "stringifyH h v \<noteq> Inl OutOfFuel"
  unfolding stringifyH_def by (rule serialize_fuel(1)) auto




end
